theory Spec2Isabelle
  imports Complex_Main
begin

section \<open>The numbers of the program: float64\<close>

text \<open>
  Every number of \<^verbatim>\<open>plot.go\<close> is a Go \<^verbatim>\<open>float64\<close> (\<^verbatim>\<open>vg.Length\<close> is declared as
  \<^verbatim>\<open>float64\<close>, and the conversion \<^verbatim>\<open>vg.Length(x)\<close> is the identity on values). The model
  keeps the special values of IEEE 754, because the program reaches them: a division by zero
  does not panic in Go, it yields an infinity or NaN, and \<^verbatim>\<open>math.Min\<close>/\<^verbatim>\<open>math.Max\<close> treat NaN
  and the infinities specially.

  A finite value is the real number it stands for, and every arithmetic operation rounds
  its exact result to the nearest float64, ties to even, with gradual underflow and with
  overflow to an infinity (\<open>round64\<close> below). That is the arithmetic of IEEE 754
  binary64, each operation rounded on its own, as Go computes it where it does not fuse a
  multiplication with an addition. One idealisation remains: the two zeros \<open>+0\<close> and
  \<open>-0\<close> are one value, which as a divisor counts as \<open>+0\<close> (the zero that \<open>x - x\<close>
  produces for finite \<open>x\<close>). Comparisons follow IEEE 754: every comparison with NaN is
  false.
\<close>

datatype float64 = NaN | NInf | Fin real | PInf

text \<open>
  Rounding to an integer, ties to the even one.
\<close>

definition rne :: "real \<Rightarrow> int" where
  "rne y =
     (let f = \<lfloor>y\<rfloor>; d = y - of_int f in
      if d < 1 / 2 then f
      else if 1 / 2 < d then f + 1
      else if even f then f else f + 1)"

text \<open>
  The float64 values are the numbers \<open>m * 2^k\<close> with \<open>\<bar>m\<bar> < 2^53\<close> and
  \<open>- 1074 \<le> k \<le> 971\<close>. The spacing of the float64 values around a magnitude \<open>a\<close> is
  \<open>2^k\<close> for the least such \<open>k\<close> with \<open>a < 2^(k + 53)\<close>, found by counting up
  from \<open>- 1074\<close> (the spacing of the subnormal numbers).
\<close>

fun qexp_search :: "real \<Rightarrow> int \<Rightarrow> nat \<Rightarrow> int" where
  "qexp_search a k 0 = k"
| "qexp_search a k (Suc n) = (if a < 2 powi (k + 53) then k else qexp_search a (k + 1) n)"

definition qexp :: "real \<Rightarrow> int" where
  "qexp a = qexp_search a (- 1074) 2045"

text \<open>
  The float64 that an exact result \<open>x\<close> is rounded to. A magnitude of
  \<open>2^1024 - 2^970\<close> or more, half a spacing above the largest finite float64
  \<open>2^1024 - 2^971\<close>, overflows to the infinity of its sign.
\<close>

definition round64 :: "real \<Rightarrow> float64" where
  "round64 x =
     (if 2 ^ 1024 - 2 ^ 970 \<le> \<bar>x\<bar> then (if 0 < x then PInf else NInf)
      else (let k = qexp \<bar>x\<bar> in Fin (of_int (rne (x / 2 powi k)) * 2 powi k)))"

instantiation float64 :: "{zero, one, uminus, plus, minus, times, inverse, ord}"
begin

definition zero_float64 :: float64 where
  "0 = Fin 0"

definition one_float64 :: float64 where
  "1 = Fin 1"

fun uminus_float64 :: "float64 \<Rightarrow> float64" where
  "- NaN = NaN"
| "- NInf = PInf"
| "- Fin a = Fin (- a)"
| "- PInf = NInf"

fun plus_float64 :: "float64 \<Rightarrow> float64 \<Rightarrow> float64" where
  "NaN + y = NaN"
| "x + NaN = NaN"
| "Fin a + Fin b = round64 (a + b)"
| "PInf + NInf = NaN"
| "NInf + PInf = NaN"
| "PInf + y = PInf"
| "x + PInf = PInf"
| "NInf + y = NInf"
| "x + NInf = NInf"

definition minus_float64 :: "float64 \<Rightarrow> float64 \<Rightarrow> float64" where
  "(x::float64) - y = x + (- y)"

fun times_float64 :: "float64 \<Rightarrow> float64 \<Rightarrow> float64" where
  "NaN * y = NaN"
| "x * NaN = NaN"
| "Fin a * Fin b = round64 (a * b)"
| "Fin a * PInf = (if a = 0 then NaN else if 0 < a then PInf else NInf)"
| "Fin a * NInf = (if a = 0 then NaN else if 0 < a then NInf else PInf)"
| "PInf * Fin b = (if b = 0 then NaN else if 0 < b then PInf else NInf)"
| "NInf * Fin b = (if b = 0 then NaN else if 0 < b then NInf else PInf)"
| "PInf * PInf = PInf"
| "PInf * NInf = NInf"
| "NInf * PInf = NInf"
| "NInf * NInf = PInf"

fun divide_float64 :: "float64 \<Rightarrow> float64 \<Rightarrow> float64" where
  "divide_float64 NaN y = NaN"
| "divide_float64 x NaN = NaN"
| "divide_float64 (Fin a) (Fin b) =
     (if b = 0 then (if a = 0 then NaN else if 0 < a then PInf else NInf)
      else round64 (a / b))"
| "divide_float64 (Fin a) PInf = Fin 0"
| "divide_float64 (Fin a) NInf = Fin 0"
| "divide_float64 PInf (Fin b) = (if 0 \<le> b then PInf else NInf)"
| "divide_float64 NInf (Fin b) = (if 0 \<le> b then NInf else PInf)"
| "divide_float64 PInf PInf = NaN"
| "divide_float64 PInf NInf = NaN"
| "divide_float64 NInf PInf = NaN"
| "divide_float64 NInf NInf = NaN"

definition inverse_float64 :: "float64 \<Rightarrow> float64" where
  "inverse (x::float64) = divide (Fin 1) x"

fun less_float64 :: "float64 \<Rightarrow> float64 \<Rightarrow> bool" where
  "NaN < y \<longleftrightarrow> False"
| "x < NaN \<longleftrightarrow> False"
| "Fin a < Fin b \<longleftrightarrow> a < b"
| "x < NInf \<longleftrightarrow> False"
| "PInf < y \<longleftrightarrow> False"
| "NInf < y \<longleftrightarrow> True"
| "Fin a < PInf \<longleftrightarrow> True"

definition less_eq_float64 :: "float64 \<Rightarrow> float64 \<Rightarrow> bool" where
  "(x::float64) \<le> y \<longleftrightarrow> x < y \<or> (x = y \<and> x \<noteq> NaN)"

instance ..

end

text \<open>Go's \<^verbatim>\<open>==\<close> on float64: NaN is equal to nothing, not even to itself.\<close>

definition feq :: "float64 \<Rightarrow> float64 \<Rightarrow> bool" where
  "feq x y \<longleftrightarrow> x = y \<and> x \<noteq> NaN"

fun isFinite :: "float64 \<Rightarrow> bool" where
  "isFinite (Fin a) = True"
| "isFinite x = False"

text \<open>
  \<^verbatim>\<open>math.Min\<close> and \<^verbatim>\<open>math.Max\<close> of the Go library, with the special cases in the order
  the library documents and tests them: \<^verbatim>\<open>Min(x, -Inf) = Min(-Inf, x) = -Inf\<close> comes
  before \<^verbatim>\<open>Min(x, NaN) = Min(NaN, x) = NaN\<close>, and likewise \<^verbatim>\<open>+Inf\<close> before NaN for
  \<^verbatim>\<open>Max\<close>. Neither rounds, so on this model they are exact.
\<close>

definition math_Min :: "float64 \<Rightarrow> float64 \<Rightarrow> float64" where
  "math_Min x y =
     (if x = NInf \<or> y = NInf then NInf
      else if x = NaN \<or> y = NaN then NaN
      else if x < y then x else y)"

definition math_Max :: "float64 \<Rightarrow> float64 \<Rightarrow> float64" where
  "math_Max x y =
     (if x = PInf \<or> y = PInf then PInf
      else if x = NaN \<or> y = NaN then NaN
      else if y < x then x else y)"


section \<open>Geometry\<close>

text \<open>
  \<^verbatim>\<open>Point\<close>, \<^verbatim>\<open>Rect\<close> and \<^verbatim>\<open>DrawArea\<close> are declared in another file of the package; the
  fields that \<^verbatim>\<open>plot.go\<close> reads and writes are \<^verbatim>\<open>Min\<close>, \<^verbatim>\<open>Size\<close> (both points) and
  the embedded canvas. Go's struct embedding is record extension here: a \<^verbatim>\<open>GlyphBox\<close>
  and a \<^verbatim>\<open>DrawArea\<close> both embed a \<^verbatim>\<open>Rect\<close>, so \<^verbatim>\<open>b.Min.X\<close> is \<open>X (Min_rect b)\<close> for
  either. \<^verbatim>\<open>Min\<close> is suffixed because HOL has a constant of that name.
\<close>

type_synonym Length = float64

record Point =
  X :: Length
  Y :: Length

record Rect =
  Min_rect :: Point
  Size :: Point

text \<open>
  A canvas is the surface that is drawn on. An area made from another one (by \<^verbatim>\<open>crop\<close>,
  \<^verbatim>\<open>padX\<close>, \<^verbatim>\<open>padY\<close>) wraps the area it came from as its canvas and so draws on the same
  surface: the model keeps the name of that surface.
\<close>

type_synonym Canvas = nat

record DrawArea = Rect +
  Canvas :: Canvas

text \<open>
  A glyph box: the glyph location \<^verbatim>\<open>X, Y\<close> in normalized coordinates, and the embedded
  \<^verbatim>\<open>Rect\<close>, the offset of the glyph's minimum drawing point relative to that location and
  its size.
\<close>

record GlyphBox = Rect +
  X_glyph :: float64
  Y_glyph :: float64

text \<open>The Go literals \<^verbatim>\<open>GlyphBox{}\<close>, \<^verbatim>\<open>GlyphBox{X: 1}\<close> and \<^verbatim>\<open>GlyphBox{Y: 1}\<close>.\<close>

definition GlyphBox_zero :: GlyphBox where
  "GlyphBox_zero =
     \<lparr>Min_rect = \<lparr>X = 0, Y = 0\<rparr>, Size = \<lparr>X = 0, Y = 0\<rparr>, X_glyph = 0, Y_glyph = 0\<rparr>"

definition GlyphBox_X1 :: GlyphBox where
  "GlyphBox_X1 = GlyphBox_zero\<lparr>X_glyph := 1\<rparr>"

definition GlyphBox_Y1 :: GlyphBox where
  "GlyphBox_Y1 = GlyphBox_zero\<lparr>Y_glyph := 1\<rparr>"

text \<open>
  Modelled from the spec: the methods \<^verbatim>\<open>Max\<close>, \<^verbatim>\<open>X\<close>, \<^verbatim>\<open>Y\<close>, \<^verbatim>\<open>Center\<close> and \<^verbatim>\<open>crop\<close> of a
  drawing region are not in \<^verbatim>\<open>plot.go\<close>. The spec gives \<open>Max = Min + Size\<close>, the transform
  \<open>X(f) = Min.X + f * Size.X\<close> (and the same for \<open>Y\<close>), the centre derived from
  \<open>Min + Size\<close>, and \<^verbatim>\<open>Crop(left, bottom, right, top)\<close> as a new region inset by the given
  margins on each side.
\<close>

definition Max_rect :: "'a Rect_scheme \<Rightarrow> Point" where
  "Max_rect r =
     \<lparr>X = X (Min_rect r) + X (Size r), Y = Y (Min_rect r) + Y (Size r)\<rparr>"

definition X_da :: "'a Rect_scheme \<Rightarrow> float64 \<Rightarrow> Length" where
  "X_da da x = X (Min_rect da) + x * X (Size da)"

definition Y_da :: "'a Rect_scheme \<Rightarrow> float64 \<Rightarrow> Length" where
  "Y_da da y = Y (Min_rect da) + y * Y (Size da)"

definition Center :: "'a Rect_scheme \<Rightarrow> Point" where
  "Center r =
     \<lparr>X = X (Min_rect r) + X (Size r) / Fin 2, Y = Y (Min_rect r) + Y (Size r) / Fin 2\<rparr>"

definition crop :: "DrawArea \<Rightarrow> Length \<Rightarrow> Length \<Rightarrow> Length \<Rightarrow> Length \<Rightarrow> DrawArea" where
  "crop da left bottom right upper =
     \<lparr>Min_rect = \<lparr>X = X (Min_rect da) + left, Y = Y (Min_rect da) + bottom\<rparr>,
      Size = \<lparr>X = X (Size da) - left - right, Y = Y (Size da) - bottom - upper\<rparr>,
      Canvas = Canvas da\<rparr>"

section \<open>The plot and its plotters\<close>

text \<open>
  An axis, as far as \<^verbatim>\<open>plot.go\<close> reads it: the range \<^verbatim>\<open>Min\<close>, \<^verbatim>\<open>Max\<close>. What else an
  axis holds (padding, ticks, label) is used only by the axis's own methods, which are
  parameters of the model (\<open>AxisOps\<close> below).
\<close>

record Axis =
  Min_axis :: float64
  Max_axis :: float64

text \<open>
  A plotter is a value of interface type. What \<^verbatim>\<open>plot.go\<close> does with one is to test it for
  the \<^verbatim>\<open>DataRanger\<close> and \<^verbatim>\<open>GlyphBoxer\<close> capabilities (a type assertion, \<open>None\<close> when it fails)
  and to call the method behind each. \<^verbatim>\<open>DataRange()\<close> returns
  \<open>(xmin, xmax, ymin, ymax)\<close>; \<^verbatim>\<open>GlyphBoxes(p)\<close> is handed the plot and reads its two axes
  (to normalize its data), so it is a function of them.
\<close>

datatype Plotter = Plotter
  (DataRanger: "(float64 \<times> float64 \<times> float64 \<times> float64) option")
  (GlyphBoxer: "(Axis \<Rightarrow> Axis \<Rightarrow> GlyphBox list) option")

datatype Color = RGBA nat nat nat nat

text \<open>
  The title's text style is observed through \<^verbatim>\<open>Height(text)\<close> and
  \<^verbatim>\<open>Font.Extents().Descent\<close>, both computed by the font code outside this file.
\<close>

record TextStyle =
  Height :: "string \<Rightarrow> Length"
  Descent :: Length

datatype Legend = Legend

record Plot =
  Title_Text :: string
  Title_TextStyle :: TextStyle
  BackgroundColor :: "Color option"
  X_axis :: Axis
  Y_axis :: Axis
  Legend_plot :: Legend
  plotters :: "Plotter list"

subsection \<open>Add\<close>

fun Add_loop :: "Plot \<Rightarrow> Plotter list \<Rightarrow> Plot" where
  "Add_loop p [] = p"
| "Add_loop p (d # ps) =
     (case DataRanger d of
        Some (xmin, xmax, ymin, ymax) \<Rightarrow>
          Add_loop
            (p\<lparr>X_axis := (X_axis p)\<lparr>Min_axis := math_Min (Min_axis (X_axis p)) xmin,
                                    Max_axis := math_Max (Max_axis (X_axis p)) xmax\<rparr>,
               Y_axis := (Y_axis p)\<lparr>Min_axis := math_Min (Min_axis (Y_axis p)) ymin,
                                    Max_axis := math_Max (Max_axis (Y_axis p)) ymax\<rparr>\<rparr>)
            ps
      | None \<Rightarrow> Add_loop p ps)"

definition Add :: "Plot \<Rightarrow> Plotter list \<Rightarrow> Plot" where
  "Add p ps = (let p' = Add_loop p ps in p'\<lparr>plotters := plotters p' @ ps\<rparr>)"

subsection \<open>GlyphBoxes\<close>

fun GlyphBoxes_loop :: "Plot \<Rightarrow> Plotter list \<Rightarrow> GlyphBox list \<Rightarrow> GlyphBox list" where
  "GlyphBoxes_loop p [] boxes = boxes"
| "GlyphBoxes_loop p (d # ds) boxes =
     (case GlyphBoxer d of
        Some gb \<Rightarrow> GlyphBoxes_loop p ds (boxes @ gb (X_axis p) (Y_axis p))
      | None \<Rightarrow> GlyphBoxes_loop p ds boxes)"

definition GlyphBoxes :: "Plot \<Rightarrow> GlyphBox list" where
  "GlyphBoxes p = GlyphBoxes_loop p (plotters p) []"

section \<open>Padding\<close>

text \<open>
  The methods of an axis that \<^verbatim>\<open>plot.go\<close> calls live in another file; they are parameters.
  \<open>hGlyphBoxes\<close> and \<open>vGlyphBoxes\<close> are \<^verbatim>\<open>horizontalAxis.GlyphBoxes\<close> and
  \<^verbatim>\<open>verticalAxis.GlyphBoxes\<close>, \<open>hsize\<close> and \<open>vsize\<close> the two \<^verbatim>\<open>size\<close> methods.
\<close>

record AxisOps =
  sanitizeRange :: "Axis \<Rightarrow> Axis"
  hsize :: "Axis \<Rightarrow> Length"
  vsize :: "Axis \<Rightarrow> Length"
  hGlyphBoxes :: "Axis \<Rightarrow> Plot \<Rightarrow> GlyphBox list"
  vGlyphBoxes :: "Axis \<Rightarrow> Plot \<Rightarrow> GlyphBox list"

fun rightMost_loop :: "'a Rect_scheme \<Rightarrow> GlyphBox list \<Rightarrow> Length \<Rightarrow> GlyphBox \<Rightarrow> GlyphBox" where
  "rightMost_loop da [] maxx r = r"
| "rightMost_loop da (b # boxes) maxx r =
     (let x = X_da da (X_glyph b) + X (Min_rect b) + X (Size b) in
      if maxx < x \<and> X_glyph b \<le> 1 then rightMost_loop da boxes x b
      else rightMost_loop da boxes maxx r)"

definition rightMost :: "'a Rect_scheme \<Rightarrow> GlyphBox list \<Rightarrow> GlyphBox" where
  "rightMost da boxes = rightMost_loop da boxes (X (Max_rect da)) GlyphBox_X1"

fun leftMost_loop :: "'a Rect_scheme \<Rightarrow> GlyphBox list \<Rightarrow> Length \<Rightarrow> GlyphBox \<Rightarrow> GlyphBox" where
  "leftMost_loop da [] minx l = l"
| "leftMost_loop da (b # boxes) minx l =
     (let x = X_da da (X_glyph b) + X (Min_rect b) in
      if x < minx \<and> 0 \<le> X_glyph b then leftMost_loop da boxes x b
      else leftMost_loop da boxes minx l)"

definition leftMost :: "'a Rect_scheme \<Rightarrow> GlyphBox list \<Rightarrow> GlyphBox" where
  "leftMost da boxes = leftMost_loop da boxes (X (Min_rect da)) GlyphBox_zero"

definition padX :: "AxisOps \<Rightarrow> Plot \<Rightarrow> DrawArea \<Rightarrow> DrawArea" where
  "padX ax p da =
     (let glyphs = GlyphBoxes p;
          l = leftMost da glyphs;
          xAxis = X_axis p;
          glyphs = glyphs @ hGlyphBoxes ax xAxis p;
          r = rightMost da glyphs;
          minx = X (Min_rect da) - X (Min_rect l);
          maxx = X (Max_rect da) - (X (Min_rect r) + X (Size r));
          lx = X_glyph l;
          rx = X_glyph r;
          n = (lx * maxx - rx * minx) / (lx - rx);
          m = ((lx - 1) * maxx - rx * minx + minx) / (lx - rx)
      in \<lparr>Min_rect = \<lparr>X = n, Y = Y (Min_rect da)\<rparr>,
          Size = \<lparr>X = m - n, Y = Y (Size da)\<rparr>,
          Canvas = Canvas da\<rparr>)"

fun topMost_loop :: "'a Rect_scheme \<Rightarrow> GlyphBox list \<Rightarrow> Length \<Rightarrow> GlyphBox \<Rightarrow> GlyphBox" where
  "topMost_loop da [] maxy t = t"
| "topMost_loop da (b # boxes) maxy t =
     (let y = Y_da da (Y_glyph b) + Y (Min_rect b) + Y (Size b) in
      if maxy < y \<and> Y_glyph b \<le> 1 then topMost_loop da boxes y b
      else topMost_loop da boxes maxy t)"

definition topMost :: "'a Rect_scheme \<Rightarrow> GlyphBox list \<Rightarrow> GlyphBox" where
  "topMost da boxes = topMost_loop da boxes (Y (Max_rect da)) GlyphBox_Y1"

fun bottomMost_loop :: "'a Rect_scheme \<Rightarrow> GlyphBox list \<Rightarrow> Length \<Rightarrow> GlyphBox \<Rightarrow> GlyphBox" where
  "bottomMost_loop da [] miny l = l"
| "bottomMost_loop da (b # boxes) miny l =
     (let y = Y_da da (Y_glyph b) + Y (Min_rect b) in
      if y < miny \<and> 0 \<le> Y_glyph b then bottomMost_loop da boxes y b
      else bottomMost_loop da boxes miny l)"

definition bottomMost :: "'a Rect_scheme \<Rightarrow> GlyphBox list \<Rightarrow> GlyphBox" where
  "bottomMost da boxes = bottomMost_loop da boxes (Y (Min_rect da)) GlyphBox_zero"

definition padY :: "AxisOps \<Rightarrow> Plot \<Rightarrow> DrawArea \<Rightarrow> DrawArea" where
  "padY ax p da =
     (let glyphs = GlyphBoxes p;
          b = bottomMost da glyphs;
          yAxis = Y_axis p;
          glyphs = glyphs @ vGlyphBoxes ax yAxis p;
          t = topMost da glyphs;
          miny = Y (Min_rect da) - Y (Min_rect b);
          maxy = Y (Max_rect da) - (Y (Min_rect t) + Y (Size t));
          by = Y_glyph b;
          ty = Y_glyph t;
          n = (by * maxy - ty * miny) / (by - ty);
          m = ((by - 1) * maxy - ty * miny + miny) / (by - ty)
      in \<lparr>Min_rect = \<lparr>X = X (Min_rect da), Y = n\<rparr>,
          Size = \<lparr>X = X (Size da), Y = m - n\<rparr>,
          Canvas = Canvas da\<rparr>)"


section \<open>Draw\<close>

text \<open>
  \<^verbatim>\<open>Draw\<close> receives a pointer to the caller's \<^verbatim>\<open>DrawArea\<close>. The model returns what the call
  leaves behind: the caller's area as it is when \<^verbatim>\<open>Draw\<close> returns, the plot (whose axes
  \<^verbatim>\<open>sanitizeRange\<close> rewrites), and the drawing operations issued on the canvas, in order.
  The assignment \<^verbatim>\<open>da = padY(...)\<close> near the end rebinds the local pointer to a fresh area,
  so it does not write to the caller's. The callees outside this file (the canvas, the two
  axes, the plotters, the legend) are taken to draw only; each is an operation of the log.
\<close>

datatype DrawOp =
    SetColor Color
  | Fill Rect
  | FillText TextStyle Length Length float64 float64 string
  | Draw_horizontalAxis Axis DrawArea
  | Draw_verticalAxis Axis DrawArea
  | Plot_plotter Plotter DrawArea
  | Draw_legend Legend DrawArea

definition Draw :: "AxisOps \<Rightarrow> Plot \<Rightarrow> DrawArea \<Rightarrow> DrawArea \<times> Plot \<times> DrawOp list" where
  "Draw ax p da =
     (let ops1 = (case BackgroundColor p of
                    Some c \<Rightarrow> [SetColor c, Fill (Rect.truncate da)]
                  | None \<Rightarrow> []);
          ops2 = (if Title_Text p \<noteq> []
                  then [FillText (Title_TextStyle p) (X (Center da)) (Y (Max_rect da))
                          (Fin (- 1 / 2)) (Fin (- 1)) (Title_Text p)]
                  else []);
          da1 = (if Title_Text p \<noteq> []
                 then da\<lparr>Size := (Size da)\<lparr>Y := Y (Size da) -
                        (Height (Title_TextStyle p) (Title_Text p) - Descent (Title_TextStyle p))\<rparr>\<rparr>
                 else da);
          p1 = p\<lparr>X_axis := sanitizeRange ax (X_axis p)\<rparr>;
          x = X_axis p1;
          p2 = p1\<lparr>Y_axis := sanitizeRange ax (Y_axis p1)\<rparr>;
          y = Y_axis p2;
          ywidth = vsize ax y;
          ops3 = [Draw_horizontalAxis x (padX ax p2 (crop da1 ywidth 0 0 0))];
          xheight = hsize ax x;
          ops4 = [Draw_verticalAxis y (padY ax p2 (crop da1 0 xheight 0 0))];
          da2 = padY ax p2 (padX ax p2 (crop da1 ywidth xheight 0 0));
          ops5 = map (\<lambda>data. Plot_plotter data da2) (plotters p2);
          ops6 = [Draw_legend (Legend_plot p2) da2]
      in (da1, p2, ops1 @ ops2 @ ops3 @ ops4 @ ops5 @ ops6))"

section \<open>Save\<close>

text \<open>
  \<^verbatim>\<open>filepath.Ext\<close> scans the path from its end towards the last separator (\<open>/\<close>) and
  returns the suffix that starts at the first dot it meets, or the empty string.
  \<^verbatim>\<open>strings.ToLower\<close>
  is modelled on bytes: the letters \<open>A\<close> to \<open>Z\<close> are lowered, every other byte is kept
  (no character outside ASCII lowers to a letter of the six extensions below).
\<close>

fun Ext_loop :: "string \<Rightarrow> string \<Rightarrow> string" where
  "Ext_loop [] suffix = []"
| "Ext_loop (c # rest) suffix =
     (if c = CHR ''/'' then []
      else if c = CHR ''.'' then c # suffix
      else Ext_loop rest (c # suffix))"

definition Ext :: "string \<Rightarrow> string" where
  "Ext path = Ext_loop (rev path) []"

definition toLower_char :: "char \<Rightarrow> char" where
  "toLower_char c =
     (let n = (of_char c :: nat) in
      if of_char CHR ''A'' \<le> n \<and> n \<le> of_char CHR ''Z''
      then char_of (n + (of_char CHR ''a'' - of_char CHR ''A''))
      else c)"

definition ToLower :: "string \<Rightarrow> string" where
  "ToLower s = map toLower_char s"

text \<open>
  The four canvas packages are outside this file. Of their behaviour \<^verbatim>\<open>Save\<close> sees what
  they return: \<^verbatim>\<open>vecimg.New\<close> may fail, and the save methods return an error or nil.
  \<^verbatim>\<open>Save\<close> itself is modelled by its returned error and the trace of what it did to the
  outside: which canvas it created, whether it drew, which file it wrote in which format.
\<close>

datatype Backend = veceps | vecimg | vecsvg | vecpdf

datatype Format = EPS | PNG | JPEG | SVG | PDF

datatype SaveError = Unsupported string | BackendError string

datatype SaveEvent = NewCanvas Backend | DrawPlot | SaveFile Format string

record SaveEnv =
  vecimg_New :: "SaveError option"
  SavePNG :: "string \<Rightarrow> SaveError option"
  SaveJPEG :: "string \<Rightarrow> SaveError option"
  SaveSVG :: "string \<Rightarrow> SaveError option"
  SavePDF :: "string \<Rightarrow> SaveError option"

definition Save :: "SaveEnv \<Rightarrow> Plot \<Rightarrow> float64 \<Rightarrow> float64 \<Rightarrow> string \<Rightarrow> SaveError option \<times> SaveEvent list" where
  "Save env p width height file =
     (let ext = ToLower (Ext file) in
      if ext = ''.eps'' then
        (None, [NewCanvas veceps, DrawPlot, SaveFile EPS file])
      else if ext = ''.png'' then
        (case vecimg_New env of
           Some err \<Rightarrow> (Some err, [NewCanvas vecimg])
         | None \<Rightarrow> (SavePNG env file, [NewCanvas vecimg, DrawPlot, SaveFile PNG file]))
      else if ext = ''.jpg'' \<or> ext = ''.jpeg'' then
        (case vecimg_New env of
           Some err \<Rightarrow> (Some err, [NewCanvas vecimg])
         | None \<Rightarrow> (SaveJPEG env file, [NewCanvas vecimg, DrawPlot, SaveFile JPEG file]))
      else if ext = ''.svg'' then
        (SaveSVG env file, [NewCanvas vecsvg, DrawPlot, SaveFile SVG file])
      else if ext = ''.pdf'' then
        (SavePDF env file, [NewCanvas vecpdf, DrawPlot, SaveFile PDF file])
      else (Some (Unsupported ext), []))"

section \<open>Notions of the specification\<close>

text \<open>
  The glyph boxes one plotter contributes to plot \<open>p\<close>: those of its \<^verbatim>\<open>GlyphBoxes\<close>
  method, none when it lacks the capability.
\<close>

definition ownBoxes :: "Plot \<Rightarrow> Plotter \<Rightarrow> GlyphBox list" where
  "ownBoxes p d = (case GlyphBoxer d of Some gb \<Rightarrow> gb (X_axis p) (Y_axis p) | None \<Rightarrow> [])"

text \<open>
  The absolute left edge of a glyph box in a region, and the test of the loop of
  \<^verbatim>\<open>leftMost\<close> against the region's own left edge.
\<close>

definition leftEdge :: "'a Rect_scheme \<Rightarrow> GlyphBox \<Rightarrow> Length" where
  "leftEdge da b = X_da da (X_glyph b) + X (Min_rect b)"

definition overhangsLeft :: "'a Rect_scheme \<Rightarrow> GlyphBox \<Rightarrow> bool" where
  "overhangsLeft da b \<longleftrightarrow> leftEdge da b < X (Min_rect da) \<and> 0 \<le> X_glyph b"

text \<open>
  The other three absolute edges of a glyph box and the tests of \<^verbatim>\<open>rightMost\<close>,
  \<^verbatim>\<open>bottomMost\<close> and \<^verbatim>\<open>topMost\<close> against the region's own edges.
\<close>

definition rightEdge :: "'a Rect_scheme \<Rightarrow> GlyphBox \<Rightarrow> Length" where
  "rightEdge da b = X_da da (X_glyph b) + X (Min_rect b) + X (Size b)"

definition overhangsRight :: "'a Rect_scheme \<Rightarrow> GlyphBox \<Rightarrow> bool" where
  "overhangsRight da b \<longleftrightarrow> X (Max_rect da) < rightEdge da b \<and> X_glyph b \<le> 1"

definition bottomEdge :: "'a Rect_scheme \<Rightarrow> GlyphBox \<Rightarrow> Length" where
  "bottomEdge da b = Y_da da (Y_glyph b) + Y (Min_rect b)"

definition overhangsBottom :: "'a Rect_scheme \<Rightarrow> GlyphBox \<Rightarrow> bool" where
  "overhangsBottom da b \<longleftrightarrow> bottomEdge da b < Y (Min_rect da) \<and> 0 \<le> Y_glyph b"

definition topEdge :: "'a Rect_scheme \<Rightarrow> GlyphBox \<Rightarrow> Length" where
  "topEdge da b = Y_da da (Y_glyph b) + Y (Min_rect b) + Y (Size b)"

definition overhangsTop :: "'a Rect_scheme \<Rightarrow> GlyphBox \<Rightarrow> bool" where
  "overhangsTop da b \<longleftrightarrow> Y (Max_rect da) < topEdge da b \<and> Y_glyph b \<le> 1"

text \<open>A glyph box anchored neither at nor beyond the range \<open>[0, 1]\<close>, on either axis.\<close>

definition anchoredInside :: "GlyphBox \<Rightarrow> bool" where
  "anchoredInside b \<longleftrightarrow>
     0 < X_glyph b \<and> X_glyph b < 1 \<and> 0 < Y_glyph b \<and> Y_glyph b < 1"

text \<open>
  The left-most box as the specification words it: among the boxes with anchor
  \<open>X \<ge> 0\<close> the one with the smallest absolute left edge, and the zero box only when
  there is no box with anchor \<open>X \<ge> 0\<close>.
\<close>

definition spec_leftMost :: "'a Rect_scheme \<Rightarrow> GlyphBox list \<Rightarrow> GlyphBox \<Rightarrow> bool" where
  "spec_leftMost da boxes l \<longleftrightarrow>
     (if \<exists>b \<in> set boxes. 0 \<le> X_glyph b
      then l \<in> set boxes \<and> 0 \<le> X_glyph l \<and>
           (\<forall>b \<in> set boxes. 0 \<le> X_glyph b \<longrightarrow> leftEdge da l \<le> leftEdge da b)
      else l = GlyphBox_zero)"

text \<open>
  The second half of \<^verbatim>\<open>padX\<close> and of \<^verbatim>\<open>padY\<close> (from \<^verbatim>\<open>minx := ...\<close> on), as functions of
  the two boxes that the first half selects.
\<close>

definition padX_solve :: "DrawArea \<Rightarrow> GlyphBox \<Rightarrow> GlyphBox \<Rightarrow> DrawArea" where
  "padX_solve da l r =
     (let minx = X (Min_rect da) - X (Min_rect l);
          maxx = X (Max_rect da) - (X (Min_rect r) + X (Size r));
          lx = X_glyph l;
          rx = X_glyph r;
          n = (lx * maxx - rx * minx) / (lx - rx);
          m = ((lx - 1) * maxx - rx * minx + minx) / (lx - rx)
      in \<lparr>Min_rect = \<lparr>X = n, Y = Y (Min_rect da)\<rparr>,
          Size = \<lparr>X = m - n, Y = Y (Size da)\<rparr>,
          Canvas = Canvas da\<rparr>)"

definition padY_solve :: "DrawArea \<Rightarrow> GlyphBox \<Rightarrow> GlyphBox \<Rightarrow> DrawArea" where
  "padY_solve da b t =
     (let miny = Y (Min_rect da) - Y (Min_rect b);
          maxy = Y (Max_rect da) - (Y (Min_rect t) + Y (Size t));
          by = Y_glyph b;
          ty = Y_glyph t;
          n = (by * maxy - ty * miny) / (by - ty);
          m = ((by - 1) * maxy - ty * miny + miny) / (by - ty)
      in \<lparr>Min_rect = \<lparr>X = X (Min_rect da), Y = n\<rparr>,
          Size = \<lparr>X = X (Size da), Y = m - n\<rparr>,
          Canvas = Canvas da\<rparr>)"

text \<open>
  The closed form as the specification prints it, in the program's arithmetic.
\<close>

definition spec_innerMin :: "float64 \<Rightarrow> float64 \<Rightarrow> Length \<Rightarrow> Length \<Rightarrow> Length" where
  "spec_innerMin lx rx minx maxx = ((lx - 1) * maxx - rx * minx + minx) / (lx - rx)"

definition spec_innerSize :: "float64 \<Rightarrow> float64 \<Rightarrow> Length \<Rightarrow> Length \<Rightarrow> Length" where
  "spec_innerSize lx rx minx maxx =
     (lx * maxx - rx * minx) / (lx - rx) - spec_innerMin lx rx minx maxx"

text \<open>
  The quantities \<^verbatim>\<open>lx\<close>, \<^verbatim>\<open>rx\<close>, \<^verbatim>\<open>minx\<close>, \<^verbatim>\<open>maxx\<close> that \<^verbatim>\<open>padX\<close> computes on the way, and
  \<^verbatim>\<open>by\<close>, \<^verbatim>\<open>ty\<close>, \<^verbatim>\<open>miny\<close>, \<^verbatim>\<open>maxy\<close> of \<^verbatim>\<open>padY\<close>.
\<close>

definition padX_lx :: "AxisOps \<Rightarrow> Plot \<Rightarrow> DrawArea \<Rightarrow> float64" where
  "padX_lx ax p da = X_glyph (leftMost da (GlyphBoxes p))"

definition padX_rx :: "AxisOps \<Rightarrow> Plot \<Rightarrow> DrawArea \<Rightarrow> float64" where
  "padX_rx ax p da = X_glyph (rightMost da (GlyphBoxes p @ hGlyphBoxes ax (X_axis p) p))"

definition padX_minx :: "AxisOps \<Rightarrow> Plot \<Rightarrow> DrawArea \<Rightarrow> Length" where
  "padX_minx ax p da = X (Min_rect da) - X (Min_rect (leftMost da (GlyphBoxes p)))"

definition padX_maxx :: "AxisOps \<Rightarrow> Plot \<Rightarrow> DrawArea \<Rightarrow> Length" where
  "padX_maxx ax p da =
     (let r = rightMost da (GlyphBoxes p @ hGlyphBoxes ax (X_axis p) p)
      in X (Max_rect da) - (X (Min_rect r) + X (Size r)))"

definition padY_by :: "AxisOps \<Rightarrow> Plot \<Rightarrow> DrawArea \<Rightarrow> float64" where
  "padY_by ax p da = Y_glyph (bottomMost da (GlyphBoxes p))"

definition padY_ty :: "AxisOps \<Rightarrow> Plot \<Rightarrow> DrawArea \<Rightarrow> float64" where
  "padY_ty ax p da = Y_glyph (topMost da (GlyphBoxes p @ vGlyphBoxes ax (Y_axis p) p))"

definition padY_miny :: "AxisOps \<Rightarrow> Plot \<Rightarrow> DrawArea \<Rightarrow> Length" where
  "padY_miny ax p da = Y (Min_rect da) - Y (Min_rect (bottomMost da (GlyphBoxes p)))"

definition padY_maxy :: "AxisOps \<Rightarrow> Plot \<Rightarrow> DrawArea \<Rightarrow> Length" where
  "padY_maxy ax p da =
     (let t = topMost da (GlyphBoxes p @ vGlyphBoxes ax (Y_axis p) p)
      in Y (Max_rect da) - (Y (Min_rect t) + Y (Size t)))"

text \<open>
  The two expressions that \<^verbatim>\<open>padX\<close> and \<^verbatim>\<open>padY\<close> store: \<^verbatim>\<open>n\<close> as the origin and
  \<^verbatim>\<open>m - n\<close> as the size.
\<close>

definition solved_Min :: "float64 \<Rightarrow> float64 \<Rightarrow> Length \<Rightarrow> Length \<Rightarrow> Length" where
  "solved_Min lx rx minx maxx = (lx * maxx - rx * minx) / (lx - rx)"

definition solved_Size :: "float64 \<Rightarrow> float64 \<Rightarrow> Length \<Rightarrow> Length \<Rightarrow> Length" where
  "solved_Size lx rx minx maxx =
     ((lx - 1) * maxx - rx * minx + minx) / (lx - rx) - solved_Min lx rx minx maxx"

text \<open>
  The ranges that the \<^verbatim>\<open>DataRanger\<close>s among a list of plotters report, in order, and the
  four components of a range.
\<close>

definition reported :: "Plotter list \<Rightarrow> (float64 \<times> float64 \<times> float64 \<times> float64) list" where
  "reported ps = List.map_filter DataRanger ps"

definition xmin_of :: "float64 \<times> float64 \<times> float64 \<times> float64 \<Rightarrow> float64" where
  "xmin_of r = fst r"

definition xmax_of :: "float64 \<times> float64 \<times> float64 \<times> float64 \<Rightarrow> float64" where
  "xmax_of r = fst (snd r)"

definition ymin_of :: "float64 \<times> float64 \<times> float64 \<times> float64 \<Rightarrow> float64" where
  "ymin_of r = fst (snd (snd r))"

definition ymax_of :: "float64 \<times> float64 \<times> float64 \<times> float64 \<Rightarrow> float64" where
  "ymax_of r = snd (snd (snd r))"

text \<open>
  Plot \<open>q\<close> has axes at least as wide as plot \<open>p\<close>, in the order of float64; the axes
  of \<open>q\<close> cover a reported range; each bound of \<open>q\<close> is the bound of \<open>p\<close> or one of
  the reported values (so that a covering \<open>q\<close> is no wider than needed).
\<close>

definition widened :: "Plot \<Rightarrow> Plot \<Rightarrow> bool" where
  "widened p q \<longleftrightarrow>
     Min_axis (X_axis q) \<le> Min_axis (X_axis p) \<and> Max_axis (X_axis p) \<le> Max_axis (X_axis q) \<and>
     Min_axis (Y_axis q) \<le> Min_axis (Y_axis p) \<and> Max_axis (Y_axis p) \<le> Max_axis (Y_axis q)"

definition covers :: "Plot \<Rightarrow> float64 \<times> float64 \<times> float64 \<times> float64 \<Rightarrow> bool" where
  "covers q r \<longleftrightarrow>
     Min_axis (X_axis q) \<le> xmin_of r \<and> xmax_of r \<le> Max_axis (X_axis q) \<and>
     Min_axis (Y_axis q) \<le> ymin_of r \<and> ymax_of r \<le> Max_axis (Y_axis q)"

definition tight :: "Plot \<Rightarrow> (float64 \<times> float64 \<times> float64 \<times> float64) list \<Rightarrow> Plot \<Rightarrow> bool" where
  "tight p rs q \<longleftrightarrow>
     Min_axis (X_axis q) \<in> set (Min_axis (X_axis p) # map xmin_of rs) \<and>
     Max_axis (X_axis q) \<in> set (Max_axis (X_axis p) # map xmax_of rs) \<and>
     Min_axis (Y_axis q) \<in> set (Min_axis (Y_axis p) # map ymin_of rs) \<and>
     Max_axis (Y_axis q) \<in> set (Max_axis (Y_axis p) # map ymax_of rs)"

text \<open>No component is NaN; every component is finite.\<close>

definition numeric_range :: "float64 \<times> float64 \<times> float64 \<times> float64 \<Rightarrow> bool" where
  "numeric_range r \<longleftrightarrow>
     xmin_of r \<noteq> NaN \<and> xmax_of r \<noteq> NaN \<and> ymin_of r \<noteq> NaN \<and> ymax_of r \<noteq> NaN"

definition numeric_axes :: "Plot \<Rightarrow> bool" where
  "numeric_axes p \<longleftrightarrow>
     Min_axis (X_axis p) \<noteq> NaN \<and> Max_axis (X_axis p) \<noteq> NaN \<and>
     Min_axis (Y_axis p) \<noteq> NaN \<and> Max_axis (Y_axis p) \<noteq> NaN"

definition finite_range :: "float64 \<times> float64 \<times> float64 \<times> float64 \<Rightarrow> bool" where
  "finite_range r \<longleftrightarrow>
     isFinite (xmin_of r) \<and> isFinite (xmax_of r) \<and> isFinite (ymin_of r) \<and> isFinite (ymax_of r)"

text \<open>
  A sequence of calls of \<^verbatim>\<open>Add\<close>, one list of plotters per call: the plots before the
  first call and after each call.
\<close>

fun Add_trace :: "Plot \<Rightarrow> Plotter list list \<Rightarrow> Plot list" where
  "Add_trace p [] = [p]"
| "Add_trace p (ps # pss) = p # Add_trace (Add p ps) pss"

text \<open>
  The extensions that \<^verbatim>\<open>Save\<close> documents as supported, and the canvas package and file
  format that belong to each.
\<close>

definition supported_extensions :: "string list" where
  "supported_extensions = [''.eps'', ''.png'', ''.jpg'', ''.jpeg'', ''.svg'', ''.pdf'']"

definition backend_for :: "string \<Rightarrow> Backend \<times> Format" where
  "backend_for ext =
     (if ext = ''.eps'' then (veceps, EPS)
      else if ext = ''.png'' then (vecimg, PNG)
      else if ext = ''.jpg'' \<or> ext = ''.jpeg'' then (vecimg, JPEG)
      else if ext = ''.svg'' then (vecsvg, SVG)
      else (vecpdf, PDF))"

text \<open>
  A finite float64 value: a finite number that rounding leaves as it is. An integer of
  magnitude at most \<open>2^40\<close>.
\<close>

definition finite64 :: "float64 \<Rightarrow> bool" where
  "finite64 v = (case v of Fin a \<Rightarrow> round64 a = Fin a | _ \<Rightarrow> False)"

definition integer40 :: "float64 \<Rightarrow> bool" where
  "integer40 v = (case v of Fin a \<Rightarrow> a \<in> \<int> \<and> \<bar>a\<bar> \<le> 2 ^ 40 | _ \<Rightarrow> False)"

subsection \<open>Example values\<close>

text \<open>
  A glyph box at anchor \<open>(x, y)\<close> with offset rectangle \<open>{Min = (minx, miny),
  Size = (w, h)}\<close>; a drawing area; a plot with the given plotters and the axes
  \<open>[0, 1]\<close>; a plotter that is a \<^verbatim>\<open>GlyphBoxer\<close> only; axis methods that contribute the
  given boxes and need no room.
\<close>

definition mkBox :: "real \<Rightarrow> real \<Rightarrow> real \<Rightarrow> real \<Rightarrow> real \<Rightarrow> real \<Rightarrow> GlyphBox" where
  "mkBox x y minx miny w h =
     \<lparr>Min_rect = \<lparr>X = Fin minx, Y = Fin miny\<rparr>, Size = \<lparr>X = Fin w, Y = Fin h\<rparr>,
      X_glyph = Fin x, Y_glyph = Fin y\<rparr>"

definition mkArea :: "real \<Rightarrow> real \<Rightarrow> real \<Rightarrow> real \<Rightarrow> DrawArea" where
  "mkArea minx miny w h =
     \<lparr>Min_rect = \<lparr>X = Fin minx, Y = Fin miny\<rparr>, Size = \<lparr>X = Fin w, Y = Fin h\<rparr>, Canvas = 0\<rparr>"

definition mkPlot :: "Plotter list \<Rightarrow> Plot" where
  "mkPlot ds =
     \<lparr>Title_Text = [], Title_TextStyle = \<lparr>Height = (\<lambda>s. Fin 12), Descent = Fin 3\<rparr>,
      BackgroundColor = None,
      X_axis = \<lparr>Min_axis = Fin 0, Max_axis = Fin 1\<rparr>,
      Y_axis = \<lparr>Min_axis = Fin 0, Max_axis = Fin 1\<rparr>,
      Legend_plot = Legend, plotters = ds\<rparr>"

definition glyphPlotter :: "GlyphBox list \<Rightarrow> Plotter" where
  "glyphPlotter boxes = Plotter None (Some (\<lambda>x y. boxes))"

definition mkAxisOps :: "GlyphBox list \<Rightarrow> GlyphBox list \<Rightarrow> AxisOps" where
  "mkAxisOps hboxes vboxes =
     \<lparr>sanitizeRange = (\<lambda>a. a), hsize = (\<lambda>a. Fin 0), vsize = (\<lambda>a. Fin 0),
      hGlyphBoxes = (\<lambda>a p. hboxes), vGlyphBoxes = (\<lambda>a p. vboxes)\<rparr>"

text \<open>
  A plotter that is a \<^verbatim>\<open>DataRanger\<close> only, a plotter with neither capability, and
  canvas packages that never fail.
\<close>

definition rangePlotter :: "float64 \<times> float64 \<times> float64 \<times> float64 \<Rightarrow> Plotter" where
  "rangePlotter r = Plotter (Some r) None"

definition silentPlotter :: Plotter where
  "silentPlotter = Plotter None None"

definition okEnv :: SaveEnv where
  "okEnv = \<lparr>vecimg_New = None, SavePNG = (\<lambda>file. None), SaveJPEG = (\<lambda>file. None),
            SaveSVG = (\<lambda>file. None), SavePDF = (\<lambda>file. None)\<rparr>"

section \<open>Properties\<close>

subsection \<open>Rounding\<close>

lemma rne_unique:
  assumes "\<bar>y - of_int m\<bar> < 1 / 2 \<or> (\<bar>y - of_int m\<bar> = 1 / 2 \<and> even m)"
  shows "rne y = m"
proof -
  let ?f = "\<lfloor>y\<rfloor>"
  have f: "of_int ?f \<le> y" "y < of_int ?f + 1" by linarith+
  from assms show ?thesis
  proof
    assume a: "\<bar>y - of_int m\<bar> < 1 / 2"
    then have "m = ?f \<or> m = ?f + 1" using f by linarith
    then show ?thesis
    proof
      assume "m = ?f"
      with a show ?thesis by (simp add: rne_def Let_def)
    next
      assume m: "m = ?f + 1"
      with a have "1 / 2 < y - of_int ?f" by simp
      with m show ?thesis by (simp add: rne_def Let_def)
    qed
  next
    assume a: "\<bar>y - of_int m\<bar> = 1 / 2 \<and> even m"
    then have "m = ?f \<or> m = ?f + 1" using f by linarith
    then show ?thesis
    proof
      assume m: "m = ?f"
      with a have "y - of_int ?f = 1 / 2" using f by linarith
      with m a show ?thesis by (simp add: rne_def Let_def)
    next
      assume m: "m = ?f + 1"
      with a have d: "y - of_int ?f = 1 / 2" using f by simp
      from m a have "odd ?f" by simp
      with m d show ?thesis by (simp add: rne_def Let_def)
    qed
  qed
qed

lemma rne_of_int [simp]: "rne (of_int m) = m"
  by (rule rne_unique) simp

lemma rne_spec:
  "\<bar>y - of_int (rne y)\<bar> < 1 / 2 \<or> (\<bar>y - of_int (rne y)\<bar> = 1 / 2 \<and> even (rne y))"
proof -
  let ?f = "\<lfloor>y\<rfloor>"
  have f: "of_int ?f \<le> y" "y < of_int ?f + 1" by linarith+
  show ?thesis
    using f by (auto simp add: rne_def Let_def abs_if) linarith+
qed

lemma rne_minus: "rne (- y) = - rne y"
  using rne_spec [of y] by (intro rne_unique) (auto simp: abs_if)

lemma pow2_less_imp_less:
  assumes "(2::real) powi m < 2 powi n"
  shows "m < n"
proof (rule ccontr)
  assume "\<not> m < n"
  then have "(2::real) powi n \<le> 2 powi m"
    by (intro power_int_increasing) simp_all
  with assms show False by simp
qed

lemma qexp_search_spec:
  "k = - 1074 \<or> 2 powi (k + 52) \<le> a \<Longrightarrow> a < 2 powi (k + int n + 53) \<Longrightarrow>
   k \<le> qexp_search a k n \<and> qexp_search a k n \<le> k + int n \<and>
   a < 2 powi (qexp_search a k n + 53) \<and>
   (qexp_search a k n = - 1074 \<or> 2 powi (qexp_search a k n + 52) \<le> a)"
proof (induction n arbitrary: k)
  case 0
  then show ?case by simp
next
  case (Suc n)
  show ?case
  proof (cases "a < 2 powi (k + 53)")
    case True
    with Suc.prems show ?thesis by simp
  next
    case False
    then have "2 powi ((k + 1) + 52) \<le> a" by (simp add: add.commute add.left_commute)
    moreover from Suc.prems(2) have "a < 2 powi ((k + 1) + int n + 53)"
      by (simp add: add.commute add.left_commute)
    ultimately have "k + 1 \<le> qexp_search a (k + 1) n \<and> qexp_search a (k + 1) n \<le> k + 1 + int n \<and>
      a < 2 powi (qexp_search a (k + 1) n + 53) \<and>
      (qexp_search a (k + 1) n = - 1074 \<or> 2 powi (qexp_search a (k + 1) n + 52) \<le> a)"
      using Suc.IH [of "k + 1"] by blast
    with False show ?thesis by simp
  qed
qed

lemma qexp_spec:
  assumes "a < 2 ^ 1024"
  shows "- 1074 \<le> qexp a" "qexp a \<le> 971" "a < 2 powi (qexp a + 53)"
    "qexp a = - 1074 \<or> 2 powi (qexp a + 52) \<le> a"
  using qexp_search_spec [of "- 1074" a 2045] assms by (simp_all add: qexp_def)

lemma qexp_least:
  assumes "a < 2 ^ 1024" "- 1074 \<le> j" "a < 2 powi (j + 53)"
  shows "qexp a \<le> j"
proof (cases "qexp a = - 1074")
  case True
  with assms show ?thesis by simp
next
  case False
  with qexp_spec(4) [OF assms(1)] have "2 powi (qexp a + 52) \<le> a" by simp
  with assms(3) have "(2::real) powi (qexp a + 52) < 2 powi (j + 53)" by simp
  then have "qexp a + 52 < j + 53"
    by (rule pow2_less_imp_less)
  then show ?thesis by simp
qed

lemma qexp_unique:
  assumes "- 1074 \<le> k" "k \<le> 971" "a < 2 powi (k + 53)" "k = - 1074 \<or> 2 powi (k + 52) \<le> a"
  shows "qexp a = k"
proof -
  have "(2::real) powi (k + 53) \<le> 2 powi 1024"
    using assms(2) by (intro power_int_increasing) simp_all
  with assms(3) have a: "a < 2 ^ 1024" by simp
  have le: "qexp a \<le> k" using qexp_least [OF a assms(1,3)] .
  have "k \<le> qexp a"
  proof (cases "k = - 1074")
    case True
    with qexp_spec(1) [OF a] show ?thesis by simp
  next
    case False
    with assms(4) have "2 powi (k + 52) \<le> a" by simp
    with qexp_spec(3) [OF a] have "(2::real) powi (k + 52) < 2 powi (qexp a + 53)" by simp
    then have "k + 52 < qexp a + 53"
      by (rule pow2_less_imp_less)
    then show ?thesis by simp
  qed
  with le show ?thesis by simp
qed

lemma round64_cert:
  assumes "- 1074 \<le> k" "k \<le> 971" "\<bar>x\<bar> < 2 powi (k + 53)"
    and "k = - 1074 \<or> 2 powi (k + 52) \<le> \<bar>x\<bar>"
    and "\<bar>x\<bar> < 2 ^ 1024 - 2 ^ 970"
    and "rne (x / 2 powi k) = m"
  shows "round64 x = Fin (of_int m * 2 powi k)"
  using assms qexp_unique [OF assms(1-4)] by (simp add: round64_def)

lemma round64_dyadic:
  assumes "x = of_int m * 2 powi j" "\<bar>m\<bar> < 2 ^ 53" "- 1074 \<le> j" "j \<le> 971"
  shows "round64 x = Fin x"
proof -
  have m: "\<bar>real_of_int m\<bar> \<le> 2 ^ 53 - 1"
  proof -
    from assms(2) have "\<bar>m\<bar> \<le> 2 ^ 53 - 1" by simp
    then have "real_of_int \<bar>m\<bar> \<le> real_of_int (2 ^ 53 - 1)" by (rule of_int_le_iff [THEN iffD2])
    then show ?thesis by simp
  qed
  have ax: "\<bar>x\<bar> = \<bar>real_of_int m\<bar> * 2 powi j"
    by (simp add: assms(1) abs_mult)
  have "\<bar>x\<bar> \<le> (2 ^ 53 - 1) * 2 powi j"
    unfolding ax using m by (intro mult_right_mono) simp_all
  also have "\<dots> < 2 ^ 53 * 2 powi j"
    by (intro mult_strict_right_mono) simp_all
  also have "\<dots> = 2 powi (j + 53)"
    by (simp add: power_int_add)
  finally have lt: "\<bar>x\<bar> < 2 powi (j + 53)" .
  have "\<bar>x\<bar> \<le> (2 ^ 53 - 1) * 2 powi j"
    unfolding ax using m by (intro mult_right_mono) simp_all
  also have "\<dots> \<le> (2 ^ 53 - 1) * 2 powi 971"
    using assms(4) by (intro mult_left_mono power_int_increasing) simp_all
  also have "\<dots> < 2 ^ 1024 - 2 ^ 970" by simp
  finally have thr: "\<bar>x\<bar> < 2 ^ 1024 - 2 ^ 970" .
  then have big: "\<bar>x\<bar> < 2 ^ 1024" by simp
  define k where "k = qexp \<bar>x\<bar>"
  have kj: "k \<le> j" unfolding k_def using qexp_least [OF big assms(3) lt] .
  have p: "(2::real) powi (j - k) = 2 ^ nat (j - k)"
    using kj by (simp add: power_int_def)
  have "x / 2 powi k = real_of_int m * 2 powi (j - k)"
    by (simp add: assms(1) power_int_diff)
  also have "\<dots> = real_of_int (m * 2 ^ nat (j - k))"
    by (simp add: p)
  finally have e: "x / 2 powi k = real_of_int (m * 2 ^ nat (j - k))" .
  have r: "rne (x / 2 powi k) = m * 2 ^ nat (j - k)"
    unfolding e by (rule rne_of_int)
  have "real_of_int (rne (x / 2 powi k)) * 2 powi k = real_of_int m * 2 powi (j - k) * 2 powi k"
    by (simp add: r p)
  also have "\<dots> = x"
    by (simp add: assms(1) power_int_diff)
  finally show ?thesis
    using thr by (simp add: round64_def k_def)
qed

lemma round64_int:
  assumes "x \<in> \<int>" "\<bar>x\<bar> < 2 ^ 53"
  shows "round64 x = Fin x"
proof -
  from assms(1) obtain m where m: "x = of_int m" by (auto elim: Ints_cases)
  with assms(2) have "real_of_int \<bar>m\<bar> < real_of_int (2 ^ 53)" by simp
  then have "\<bar>m\<bar> < 2 ^ 53" by (simp only: of_int_less_iff)
  then show ?thesis
    by (intro round64_dyadic [of x m 0]) (simp_all add: m)
qed

lemma round64_small_dyadic [simp]:
  assumes "x * 1024 \<in> \<int>" "\<bar>x\<bar> \<le> 2 ^ 40"
  shows "round64 x = Fin x"
proof -
  from assms(1) obtain m where m: "x * 1024 = of_int m" by (auto elim: Ints_cases)
  with assms(2) have "real_of_int \<bar>m\<bar> \<le> real_of_int (2 ^ 50)" by simp
  then have "\<bar>m\<bar> \<le> 2 ^ 50" by (simp only: of_int_le_iff)
  then have "\<bar>m\<bar> < 2 ^ 53" by simp
  moreover from m have "x = of_int m * 2 powi (- 10)"
    by (simp add: power_int_minus field_simps)
  ultimately show ?thesis
    by (intro round64_dyadic [of x m "- 10"]) simp_all
qed

lemma round64_minus: "round64 (- x) = - round64 x"
  by (simp add: round64_def Let_def rne_minus)

subsection \<open>Arithmetic and order of float64\<close>

lemma Fin_minus [simp]: "Fin a - Fin b = round64 (a - b)"
  by (simp add: minus_float64_def)

lemma Fin_le [simp]: "Fin a \<le> Fin b \<longleftrightarrow> a \<le> b"
  by (auto simp: less_eq_float64_def)

lemmas float64_numeral [simp] = zero_float64_def one_float64_def

lemma fless_trans: "(x::float64) < y \<Longrightarrow> y < z \<Longrightarrow> x < z"
  by (cases x; cases y; cases z) simp_all

lemma fless_irrefl: "\<not> (x::float64) < x"
  by (cases x) simp_all

lemma fless_asym: "(x::float64) < y \<Longrightarrow> \<not> y < x"
  by (cases x; cases y) simp_all

subsection \<open>Example values\<close>

lemma GlyphBoxes_mkPlot [simp]: "GlyphBoxes (mkPlot [glyphPlotter boxes]) = boxes"
  by (simp add: GlyphBoxes_def mkPlot_def glyphPlotter_def)

lemma GlyphBoxes_mkPlot_Nil [simp]: "GlyphBoxes (mkPlot []) = []"
  by (simp add: GlyphBoxes_def mkPlot_def)

subsection \<open>Collecting the glyph boxes\<close>

lemma GlyphBoxes_loop_concat:
  "GlyphBoxes_loop p ds boxes = boxes @ concat (map (ownBoxes p) ds)"
  by (induction ds arbitrary: boxes) (simp_all add: ownBoxes_def split: option.split)

lemma Add_loop_plotters: "plotters (Add_loop p ps) = plotters p"
  by (induction p ps rule: Add_loop.induct) (simp_all split: option.split prod.split)

text \<open>
  Claim C7. The glyph boxes of a plot are the concatenation, in the order of the plotter
  list, of each plotter's own boxes, where a plotter that is no \<^verbatim>\<open>GlyphBoxer\<close> contributes
  none; nothing is dropped, merged or reordered. The list is the registration order:
  after \<^verbatim>\<open>Add\<close> the boxes of the plotters registered before come first, then those of the
  added plotters in the order given. The boxes of the axes are not part of it: the
  collection is a function of the plot's plotters and axes ranges alone, and the axes'
  own boxes (the parameters \<open>hGlyphBoxes\<close>, \<open>vGlyphBoxes\<close>) do not occur in it.
\<close>

theorem GlyphBoxes_registration_order:
  "GlyphBoxes p = concat (map (ownBoxes p) (plotters p)) \<and>
   GlyphBoxes (Add p ps) =
     concat (map (ownBoxes (Add p ps)) (plotters p)) @ concat (map (ownBoxes (Add p ps)) ps)"
  by (simp add: GlyphBoxes_def GlyphBoxes_loop_concat Add_def Let_def Add_loop_plotters)

subsection \<open>The left-most box\<close>

lemma leftMost_loop_spec:
  "(\<forall>b \<in> set boxes. \<not> (leftEdge da b < minx \<and> 0 \<le> X_glyph b)) \<and>
     leftMost_loop da boxes minx l = l
   \<or> leftMost_loop da boxes minx l \<in> set boxes \<and>
     leftEdge da (leftMost_loop da boxes minx l) < minx \<and>
     0 \<le> X_glyph (leftMost_loop da boxes minx l) \<and>
     (\<forall>b \<in> set boxes. 0 \<le> X_glyph b \<longrightarrow>
        \<not> leftEdge da b < leftEdge da (leftMost_loop da boxes minx l))"
proof (induction boxes arbitrary: minx l)
  case Nil
  then show ?case by simp
next
  case (Cons b boxes)
  let ?x = "leftEdge da b"
  show ?case
  proof (cases "?x < minx \<and> 0 \<le> X_glyph b")
    case True
    then have step: "leftMost_loop da (b # boxes) minx l = leftMost_loop da boxes ?x b"
      by (simp add: leftEdge_def Let_def)
    from Cons.IH [of ?x b] show ?thesis
    proof
      assume "(\<forall>b' \<in> set boxes. \<not> (leftEdge da b' < ?x \<and> 0 \<le> X_glyph b')) \<and>
        leftMost_loop da boxes ?x b = b"
      with True step show ?thesis
        by (auto simp: fless_irrefl)
    next
      assume "leftMost_loop da boxes ?x b \<in> set boxes \<and>
        leftEdge da (leftMost_loop da boxes ?x b) < ?x \<and>
        0 \<le> X_glyph (leftMost_loop da boxes ?x b) \<and>
        (\<forall>b' \<in> set boxes. 0 \<le> X_glyph b' \<longrightarrow>
           \<not> leftEdge da b' < leftEdge da (leftMost_loop da boxes ?x b))"
      with True step show ?thesis
        by (auto dest: fless_trans fless_asym)
    qed
  next
    case False
    then have step: "leftMost_loop da (b # boxes) minx l = leftMost_loop da boxes minx l"
      by (auto simp add: leftEdge_def Let_def)
    from Cons.IH [of minx l] show ?thesis
    proof
      assume "(\<forall>b' \<in> set boxes. \<not> (leftEdge da b' < minx \<and> 0 \<le> X_glyph b')) \<and>
        leftMost_loop da boxes minx l = l"
      with False step show ?thesis by auto
    next
      assume "leftMost_loop da boxes minx l \<in> set boxes \<and>
        leftEdge da (leftMost_loop da boxes minx l) < minx \<and>
        0 \<le> X_glyph (leftMost_loop da boxes minx l) \<and>
        (\<forall>b' \<in> set boxes. 0 \<le> X_glyph b' \<longrightarrow>
           \<not> leftEdge da b' < leftEdge da (leftMost_loop da boxes minx l))"
      with False step show ?thesis
        by (auto dest: fless_trans)
    qed
  qed
qed

lemma leftMost_spec:
  "(\<not> (\<exists>b \<in> set boxes. overhangsLeft da b) \<longrightarrow> leftMost da boxes = GlyphBox_zero) \<and>
   ((\<exists>b \<in> set boxes. overhangsLeft da b) \<longrightarrow>
      leftMost da boxes \<in> set boxes \<and> overhangsLeft da (leftMost da boxes) \<and>
      (\<forall>b \<in> set boxes. 0 \<le> X_glyph b \<longrightarrow>
         \<not> leftEdge da b < leftEdge da (leftMost da boxes)))"
  using leftMost_loop_spec [of boxes da "X (Min_rect da)" GlyphBox_zero]
  unfolding leftMost_def overhangsLeft_def by auto

lemma padX_by_solve:
  "padX ax p da =
     padX_solve da (leftMost da (GlyphBoxes p))
       (rightMost da (GlyphBoxes p @ hGlyphBoxes ax (X_axis p) p))"
  by (simp add: padX_def padX_solve_def Let_def)

lemma padY_by_solve:
  "padY ax p da =
     padY_solve da (bottomMost da (GlyphBoxes p))
       (topMost da (GlyphBoxes p @ vGlyphBoxes ax (Y_axis p) p))"
  by (simp add: padY_def padY_solve_def Let_def)

text \<open>
  Claim C5, as amended. In the horizontal padding pass the left-most box is selected
  among the plot's own glyph boxes only: the boxes of the x axis are appended after the
  selection and take part in the choice of the right-most box alone. Among a list of
  boxes, \<^verbatim>\<open>leftMost\<close> returns a box with anchor \<open>X \<ge> 0\<close> whose absolute left edge
  \<open>region.X(Anchor.X) + OffsetRect.Min.X\<close> lies strictly left of the region's own left
  edge, and no box with anchor \<open>X \<ge> 0\<close> has a smaller left edge; when no box with
  anchor \<open>X \<ge> 0\<close> reaches left of the region, the zero box (anchor \<open>X = 0\<close>, zero
  offset) is returned.
\<close>

theorem leftMost_selection:
  "padX ax p da =
     padX_solve da (leftMost da (GlyphBoxes p))
       (rightMost da (GlyphBoxes p @ hGlyphBoxes ax (X_axis p) p)) \<and>
   (if \<exists>b \<in> set boxes. overhangsLeft da b
    then leftMost da boxes \<in> set boxes \<and> overhangsLeft da (leftMost da boxes) \<and>
         (\<forall>b \<in> set boxes. 0 \<le> X_glyph b \<longrightarrow>
            \<not> leftEdge da b < leftEdge da (leftMost da boxes))
    else leftMost da boxes = GlyphBox_zero)"
  using leftMost_spec [of boxes da] padX_by_solve [of ax p da]
  by (auto split: if_splits)

theorem leftMost_selection_witness:
  "(\<exists>b \<in> set [mkBox (1/2) 0 0 0 1 1, mkBox 0 0 (- 10) 0 10 1, mkBox 0 0 (- 5) 0 10 1].
      overhangsLeft (mkArea 0 0 200 100) b) \<and>
   leftMost (mkArea 0 0 200 100)
     [mkBox (1/2) 0 0 0 1 1, mkBox 0 0 (- 10) 0 10 1, mkBox 0 0 (- 5) 0 10 1]
     = mkBox 0 0 (- 10) 0 10 1 \<and>
   overhangsLeft (mkArea 0 0 200 100) (mkBox 0 0 (- 10) 0 10 1)"
  using leftMost_selection [of "mkAxisOps [] []" "mkPlot []" "mkArea 0 0 200 100"
      "[mkBox (1/2) 0 0 0 1 1, mkBox 0 0 (- 10) 0 10 1, mkBox 0 0 (- 5) 0 10 1]"]
  by (simp add: overhangsLeft_def leftEdge_def mkBox_def mkArea_def X_da_def leftMost_def)

text \<open>
  The claim as it was stated fails twice. A box of the x axis that hangs 10 units left
  of the region at anchor \<open>X = 0\<close> is not selected, the zero box is; and a box of a
  plotter at anchor \<open>X = 1/2\<close> that lies inside the region is a candidate with anchor
  \<open>X \<ge> 0\<close>, yet the zero box is used.
\<close>

theorem leftMost_claim_counterexample:
  "\<not> spec_leftMost (mkArea 0 0 200 100)
       (GlyphBoxes (mkPlot []) @
        hGlyphBoxes (mkAxisOps [mkBox 0 0 (- 10) 0 10 1] []) (X_axis (mkPlot [])) (mkPlot []))
       (leftMost (mkArea 0 0 200 100) (GlyphBoxes (mkPlot []))) \<and>
   \<not> spec_leftMost (mkArea 0 0 200 100)
       (GlyphBoxes (mkPlot [glyphPlotter [mkBox (1/2) 0 0 0 1 1]]))
       (leftMost (mkArea 0 0 200 100) (GlyphBoxes (mkPlot [glyphPlotter [mkBox (1/2) 0 0 0 1 1]])))"
  by (simp add: spec_leftMost_def mkAxisOps_def leftMost_def leftEdge_def mkBox_def mkArea_def
      X_da_def GlyphBox_zero_def)

subsection \<open>The closed form of the padded region\<close>

lemma padX_fields:
  "X (Min_rect (padX ax p da)) =
     solved_Min (padX_lx ax p da) (padX_rx ax p da) (padX_minx ax p da) (padX_maxx ax p da)"
  "X (Size (padX ax p da)) =
     solved_Size (padX_lx ax p da) (padX_rx ax p da) (padX_minx ax p da) (padX_maxx ax p da)"
  "Y (Min_rect (padX ax p da)) = Y (Min_rect da)"
  "Y (Size (padX ax p da)) = Y (Size da)"
  "Canvas (padX ax p da) = Canvas da"
  by (simp_all add: padX_def Let_def solved_Min_def solved_Size_def padX_lx_def padX_rx_def
      padX_minx_def padX_maxx_def)

lemma padY_fields:
  "Y (Min_rect (padY ax p da)) =
     solved_Min (padY_by ax p da) (padY_ty ax p da) (padY_miny ax p da) (padY_maxy ax p da)"
  "Y (Size (padY ax p da)) =
     solved_Size (padY_by ax p da) (padY_ty ax p da) (padY_miny ax p da) (padY_maxy ax p da)"
  "X (Min_rect (padY ax p da)) = X (Min_rect da)"
  "X (Size (padY ax p da)) = X (Size da)"
  "Canvas (padY ax p da) = Canvas da"
  by (simp_all add: padY_def Let_def solved_Min_def solved_Size_def padY_by_def padY_ty_def
      padY_miny_def padY_maxy_def)

lemma solved_ends:
  assumes "lo \<in> \<int>" "hi \<in> \<int>" "\<bar>lo\<bar> \<le> 2 ^ 40" "\<bar>hi\<bar> \<le> 2 ^ 40"
  shows "solved_Min (Fin 0) (Fin 1) (Fin lo) (Fin hi) = Fin lo"
    and "solved_Size (Fin 0) (Fin 1) (Fin lo) (Fin hi) = Fin (hi - lo)"
proof -
  have a: "round64 (- hi - lo) = Fin (- hi - lo)"
    using assms by (intro round64_int) simp_all
  have b: "round64 (hi - lo) = Fin (hi - lo)"
    using assms by (intro round64_int) simp_all
  show m: "solved_Min (Fin 0) (Fin 1) (Fin lo) (Fin hi) = Fin lo"
    using assms by (simp add: solved_Min_def round64_minus)
  show "solved_Size (Fin 0) (Fin 1) (Fin lo) (Fin hi) = Fin (hi - lo)"
    unfolding solved_Size_def m using assms a b
    by (simp add: round64_minus)
qed

lemma transform_ends:
  assumes "lo \<in> \<int>" "hi \<in> \<int>" "\<bar>lo\<bar> \<le> 2 ^ 40" "\<bar>hi\<bar> \<le> 2 ^ 40"
  shows "Fin lo + Fin 0 * Fin (hi - lo) = Fin lo"
    and "Fin lo + Fin 1 * Fin (hi - lo) = Fin hi"
proof -
  have b: "round64 (hi - lo) = Fin (hi - lo)"
    using assms by (intro round64_int) simp_all
  show "Fin lo + Fin 0 * Fin (hi - lo) = Fin lo"
    using assms by simp
  show "Fin lo + Fin 1 * Fin (hi - lo) = Fin hi"
    using assms b by simp
qed

lemmas example_defs = mkBox_def mkArea_def mkAxisOps_def X_da_def Y_da_def Max_rect_def
  leftMost_def rightMost_def bottomMost_def topMost_def GlyphBox_zero_def GlyphBox_X1_def GlyphBox_Y1_def

lemmas pad_quantities = padX_lx_def padX_rx_def padX_minx_def padX_maxx_def
  padY_by_def padY_ty_def padY_miny_def padY_maxy_def

text \<open>
  Claim C1, as amended. For every plot and region the rectangle that \<^verbatim>\<open>padX\<close> returns has
  \<open>Min.X = (lx * maxx - rx * minx) / (lx - rx)\<close> and
  \<open>Size.X = ((lx - 1) * maxx - rx * minx + minx) / (lx - rx) - Min.X\<close>, each operation
  being the float64 one, and symmetrically for \<^verbatim>\<open>padY\<close>: the two quotients of the
  specification change places, the one it calls \<open>innerMin\<close> being the right (upper) end
  of the returned region. Where the anchors are the two ends (\<open>lx = 0\<close>, \<open>rx = 1\<close>)
  and \<open>minx\<close>, \<open>maxx\<close> are integers of magnitude at most \<open>2^40\<close>, no operation
  rounds: \<open>Min.X\<close> is \<open>minx\<close>, and the transform of the returned region maps \<open>lx\<close>
  to \<open>minx\<close> and \<open>rx\<close> to \<open>maxx\<close>, the linear system of the specification. Nothing
  is said of the linear system where the operations round.
\<close>

theorem pad_closed_form:
  "X (Min_rect (padX ax p da)) =
     solved_Min (padX_lx ax p da) (padX_rx ax p da) (padX_minx ax p da) (padX_maxx ax p da) \<and>
   X (Size (padX ax p da)) =
     solved_Size (padX_lx ax p da) (padX_rx ax p da) (padX_minx ax p da) (padX_maxx ax p da) \<and>
   Y (Min_rect (padY ax p da)) =
     solved_Min (padY_by ax p da) (padY_ty ax p da) (padY_miny ax p da) (padY_maxy ax p da) \<and>
   Y (Size (padY ax p da)) =
     solved_Size (padY_by ax p da) (padY_ty ax p da) (padY_miny ax p da) (padY_maxy ax p da) \<and>
   (padX_lx ax p da = Fin 0 \<and> padX_rx ax p da = Fin 1 \<and>
    padX_minx ax p da = Fin minx \<and> padX_maxx ax p da = Fin maxx \<and>
    minx \<in> \<int> \<and> maxx \<in> \<int> \<and> \<bar>minx\<bar> \<le> 2 ^ 40 \<and> \<bar>maxx\<bar> \<le> 2 ^ 40 \<longrightarrow>
      X (Min_rect (padX ax p da)) = Fin minx \<and>
      X_da (padX ax p da) (Fin 0) = Fin minx \<and> X_da (padX ax p da) (Fin 1) = Fin maxx) \<and>
   (padY_by ax p da = Fin 0 \<and> padY_ty ax p da = Fin 1 \<and>
    padY_miny ax p da = Fin miny \<and> padY_maxy ax p da = Fin maxy \<and>
    miny \<in> \<int> \<and> maxy \<in> \<int> \<and> \<bar>miny\<bar> \<le> 2 ^ 40 \<and> \<bar>maxy\<bar> \<le> 2 ^ 40 \<longrightarrow>
      Y (Min_rect (padY ax p da)) = Fin miny \<and>
      Y_da (padY ax p da) (Fin 0) = Fin miny \<and> Y_da (padY ax p da) (Fin 1) = Fin maxy)"
proof -
  have "X (Min_rect (padX ax p da)) = Fin minx \<and>
      X_da (padX ax p da) (Fin 0) = Fin minx \<and> X_da (padX ax p da) (Fin 1) = Fin maxx"
    if "padX_lx ax p da = Fin 0" "padX_rx ax p da = Fin 1"
       "padX_minx ax p da = Fin minx" "padX_maxx ax p da = Fin maxx"
       "minx \<in> \<int>" "maxx \<in> \<int>" "\<bar>minx\<bar> \<le> 2 ^ 40" "\<bar>maxx\<bar> \<le> 2 ^ 40"
    using that(1-4) solved_ends [OF that(5-8)] transform_ends [OF that(5-8)]
    by (simp only: X_da_def padX_fields)
  moreover
  have "Y (Min_rect (padY ax p da)) = Fin miny \<and>
      Y_da (padY ax p da) (Fin 0) = Fin miny \<and> Y_da (padY ax p da) (Fin 1) = Fin maxy"
    if "padY_by ax p da = Fin 0" "padY_ty ax p da = Fin 1"
       "padY_miny ax p da = Fin miny" "padY_maxy ax p da = Fin maxy"
       "miny \<in> \<int>" "maxy \<in> \<int>" "\<bar>miny\<bar> \<le> 2 ^ 40" "\<bar>maxy\<bar> \<le> 2 ^ 40"
    using that(1-4) solved_ends [OF that(5-8)] transform_ends [OF that(5-8)]
    by (simp only: Y_da_def padY_fields)
  ultimately show ?thesis
    by (simp add: padX_fields(1,2) padY_fields(1,2))
qed

theorem pad_closed_form_witness:
  "padX_lx (mkAxisOps [] []) (mkPlot [glyphPlotter [mkBox 0 0 (- 10) 0 10 1, mkBox 1 0 0 0 15 1]])
     (mkArea 0 0 200 100) = Fin 0 \<and>
   padX_rx (mkAxisOps [] []) (mkPlot [glyphPlotter [mkBox 0 0 (- 10) 0 10 1, mkBox 1 0 0 0 15 1]])
     (mkArea 0 0 200 100) = Fin 1 \<and>
   padX_minx (mkAxisOps [] []) (mkPlot [glyphPlotter [mkBox 0 0 (- 10) 0 10 1, mkBox 1 0 0 0 15 1]])
     (mkArea 0 0 200 100) = Fin 10 \<and>
   padX_maxx (mkAxisOps [] []) (mkPlot [glyphPlotter [mkBox 0 0 (- 10) 0 10 1, mkBox 1 0 0 0 15 1]])
     (mkArea 0 0 200 100) = Fin 185 \<and>
   X_da (padX (mkAxisOps [] []) (mkPlot [glyphPlotter [mkBox 0 0 (- 10) 0 10 1, mkBox 1 0 0 0 15 1]])
     (mkArea 0 0 200 100)) (Fin 0) = Fin 10 \<and>
   X_da (padX (mkAxisOps [] []) (mkPlot [glyphPlotter [mkBox 0 0 (- 10) 0 10 1, mkBox 1 0 0 0 15 1]])
     (mkArea 0 0 200 100)) (Fin 1) = Fin 185 \<and>
   padY_by (mkAxisOps [] []) (mkPlot [glyphPlotter [mkBox 0 0 (- 10) 0 10 1, mkBox 1 0 0 0 15 1]])
     (mkArea 0 0 200 100) = Fin 0 \<and>
   padY_ty (mkAxisOps [] []) (mkPlot [glyphPlotter [mkBox 0 0 (- 10) 0 10 1, mkBox 1 0 0 0 15 1]])
     (mkArea 0 0 200 100) = Fin 1 \<and>
   Y_da (padY (mkAxisOps [] []) (mkPlot [glyphPlotter [mkBox 0 0 (- 10) 0 10 1, mkBox 1 0 0 0 15 1]])
     (mkArea 0 0 200 100)) (Fin 0) = Fin 0 \<and>
   Y_da (padY (mkAxisOps [] []) (mkPlot [glyphPlotter [mkBox 0 0 (- 10) 0 10 1, mkBox 1 0 0 0 15 1]])
     (mkArea 0 0 200 100)) (Fin 1) = Fin 100"
proof -
  have q: "padX_lx (mkAxisOps [] [])
        (mkPlot [glyphPlotter [mkBox 0 0 (- 10) 0 10 1, mkBox 1 0 0 0 15 1]]) (mkArea 0 0 200 100) = Fin 0"
    "padX_rx (mkAxisOps [] [])
        (mkPlot [glyphPlotter [mkBox 0 0 (- 10) 0 10 1, mkBox 1 0 0 0 15 1]]) (mkArea 0 0 200 100) = Fin 1"
    "padX_minx (mkAxisOps [] [])
        (mkPlot [glyphPlotter [mkBox 0 0 (- 10) 0 10 1, mkBox 1 0 0 0 15 1]]) (mkArea 0 0 200 100) = Fin 10"
    "padX_maxx (mkAxisOps [] [])
        (mkPlot [glyphPlotter [mkBox 0 0 (- 10) 0 10 1, mkBox 1 0 0 0 15 1]]) (mkArea 0 0 200 100) = Fin 185"
    "padY_by (mkAxisOps [] [])
        (mkPlot [glyphPlotter [mkBox 0 0 (- 10) 0 10 1, mkBox 1 0 0 0 15 1]]) (mkArea 0 0 200 100) = Fin 0"
    "padY_ty (mkAxisOps [] [])
        (mkPlot [glyphPlotter [mkBox 0 0 (- 10) 0 10 1, mkBox 1 0 0 0 15 1]]) (mkArea 0 0 200 100) = Fin 1"
    "padY_miny (mkAxisOps [] [])
        (mkPlot [glyphPlotter [mkBox 0 0 (- 10) 0 10 1, mkBox 1 0 0 0 15 1]]) (mkArea 0 0 200 100) = Fin 0"
    "padY_maxy (mkAxisOps [] [])
        (mkPlot [glyphPlotter [mkBox 0 0 (- 10) 0 10 1, mkBox 1 0 0 0 15 1]]) (mkArea 0 0 200 100) = Fin 100"
    by (simp_all add: pad_quantities example_defs Let_def)
  show ?thesis
    using q pad_closed_form [of "mkAxisOps [] []"
      "mkPlot [glyphPlotter [mkBox 0 0 (- 10) 0 10 1, mkBox 1 0 0 0 15 1]]" "mkArea 0 0 200 100"
      10 185 0 100]
    by simp
qed

text \<open>
  The claim as it was stated fails on a region of width 200 with a box hanging 10 units
  left of anchor 0 and a box reaching 15 units right of anchor 1: the returned origin is
  10 and the size 175, where the formulas of the specification give 185 and \<open>-175\<close>.
\<close>

theorem pad_closed_form_counterexample:
  "padX_lx (mkAxisOps [] []) (mkPlot [glyphPlotter [mkBox 0 0 (- 10) 0 10 1, mkBox 1 0 0 0 15 1]])
     (mkArea 0 0 200 100) \<noteq>
   padX_rx (mkAxisOps [] []) (mkPlot [glyphPlotter [mkBox 0 0 (- 10) 0 10 1, mkBox 1 0 0 0 15 1]])
     (mkArea 0 0 200 100) \<and>
   X (Min_rect (padX (mkAxisOps [] [])
        (mkPlot [glyphPlotter [mkBox 0 0 (- 10) 0 10 1, mkBox 1 0 0 0 15 1]])
        (mkArea 0 0 200 100))) = Fin 10 \<and>
   spec_innerMin
     (padX_lx (mkAxisOps [] []) (mkPlot [glyphPlotter [mkBox 0 0 (- 10) 0 10 1, mkBox 1 0 0 0 15 1]])
        (mkArea 0 0 200 100))
     (padX_rx (mkAxisOps [] []) (mkPlot [glyphPlotter [mkBox 0 0 (- 10) 0 10 1, mkBox 1 0 0 0 15 1]])
        (mkArea 0 0 200 100))
     (padX_minx (mkAxisOps [] []) (mkPlot [glyphPlotter [mkBox 0 0 (- 10) 0 10 1, mkBox 1 0 0 0 15 1]])
        (mkArea 0 0 200 100))
     (padX_maxx (mkAxisOps [] []) (mkPlot [glyphPlotter [mkBox 0 0 (- 10) 0 10 1, mkBox 1 0 0 0 15 1]])
        (mkArea 0 0 200 100)) = Fin 185 \<and>
   X (Size (padX (mkAxisOps [] [])
        (mkPlot [glyphPlotter [mkBox 0 0 (- 10) 0 10 1, mkBox 1 0 0 0 15 1]])
        (mkArea 0 0 200 100))) = Fin 175 \<and>
   spec_innerSize
     (padX_lx (mkAxisOps [] []) (mkPlot [glyphPlotter [mkBox 0 0 (- 10) 0 10 1, mkBox 1 0 0 0 15 1]])
        (mkArea 0 0 200 100))
     (padX_rx (mkAxisOps [] []) (mkPlot [glyphPlotter [mkBox 0 0 (- 10) 0 10 1, mkBox 1 0 0 0 15 1]])
        (mkArea 0 0 200 100))
     (padX_minx (mkAxisOps [] []) (mkPlot [glyphPlotter [mkBox 0 0 (- 10) 0 10 1, mkBox 1 0 0 0 15 1]])
        (mkArea 0 0 200 100))
     (padX_maxx (mkAxisOps [] []) (mkPlot [glyphPlotter [mkBox 0 0 (- 10) 0 10 1, mkBox 1 0 0 0 15 1]])
        (mkArea 0 0 200 100)) = Fin (- 175)"
  by (simp add: padX_def Let_def spec_innerMin_def spec_innerSize_def pad_quantities example_defs)

subsection \<open>Padding exactness\<close>

text \<open>
  Claim C2, as amended. Take an outer region of width 200 whose \<open>Min.X\<close> is an integer
  of magnitude at most \<open>2^40\<close>, and exactly two glyph boxes, one at anchor \<open>X = 0\<close>
  with offset rectangle \<open>{Min.X = -10, Size.X = 10}\<close> and one at anchor \<open>X = 1\<close> with
  \<open>{Min.X = 0, Size.X = 15}\<close>, in either order, the x axis contributing none. Then no
  operation of the pass rounds, and the transform \<open>X\<close> of the region returned by
  \<^verbatim>\<open>padX\<close> puts the left box's left edge \<open>X(0) + (-10)\<close> on the outer region's
  \<open>Min.X\<close> and the right box's right edge \<open>X(1) + 0 + 15\<close> on the outer region's
  \<open>Max().X\<close>.
\<close>

theorem padding_exactness:
  assumes "GlyphBoxes p = [b1, b2] \<or> GlyphBoxes p = [b2, b1]"
    and "hGlyphBoxes ax (X_axis p) p = []"
    and "X_glyph b1 = Fin 0" "X (Min_rect b1) = Fin (- 10)" "X (Size b1) = Fin 10"
    and "X_glyph b2 = Fin 1" "X (Min_rect b2) = Fin 0" "X (Size b2) = Fin 15"
    and "X (Min_rect da) = Fin a" "a \<in> \<int>" "\<bar>a\<bar> \<le> 2 ^ 40" "X (Size da) = Fin 200"
  shows "X_da (padX ax p da) (Fin 0) + Fin (- 10) = X (Min_rect da) \<and>
         X_da (padX ax p da) (Fin 1) + Fin 0 + Fin 15 = X (Max_rect da)"
  using assms
  by (auto simp add: padX_def Let_def X_da_def Max_rect_def leftMost_def rightMost_def
      GlyphBox_zero_def GlyphBox_X1_def round64_int round64_minus)

theorem padding_exactness_witness:
  "X_da (padX (mkAxisOps [] [])
      (mkPlot [glyphPlotter [mkBox 0 0 (- 10) (- 3) 10 6, mkBox 1 0 0 (- 3) 15 6]])
      (mkArea 40 30 200 100)) (Fin 0) + Fin (- 10) = Fin 40 \<and>
   X_da (padX (mkAxisOps [] [])
      (mkPlot [glyphPlotter [mkBox 0 0 (- 10) (- 3) 10 6, mkBox 1 0 0 (- 3) 15 6]])
      (mkArea 40 30 200 100)) (Fin 1) + Fin 0 + Fin 15 = Fin 240"
  using padding_exactness [of
      "mkPlot [glyphPlotter [mkBox 0 0 (- 10) (- 3) 10 6, mkBox 1 0 0 (- 3) 15 6]]"
      "mkBox 0 0 (- 10) (- 3) 10 6" "mkBox 1 0 0 (- 3) 15 6" "mkAxisOps [] []"
      "mkArea 40 30 200 100" 40]
  by (simp add: mkBox_def mkArea_def mkAxisOps_def Max_rect_def)

lemma tenth_1: "round64 (56294995342131 / 562949953421312) = Fin (56294995342131 / 562949953421312)"
proof -
  have "rne ((56294995342131 / 562949953421312) / 2 powi (- 56)) = 7205759403792768"
    by (rule rne_unique) simp
  then have "round64 (56294995342131 / 562949953421312) = Fin (of_int 7205759403792768 * 2 powi (- 56))"
    by (intro round64_cert) simp_all
  then show ?thesis by simp
qed

lemma tenth_2: "round64 (3602879701896397 / 36028797018963968) = Fin (3602879701896397 / 36028797018963968)"
proof -
  have "rne ((3602879701896397 / 36028797018963968) / 2 powi (- 56)) = 7205759403792794"
    by (rule rne_unique) simp
  then have "round64 (3602879701896397 / 36028797018963968) = Fin (of_int 7205759403792794 * 2 powi (- 56))"
    by (intro round64_cert) simp_all
  then show ?thesis by simp
qed

lemma tenth_3: "round64 (356685090487743283 / 36028797018963968) = Fin (5573204538870989 / 562949953421312)"
proof -
  have "rne ((356685090487743283 / 36028797018963968) / 2 powi (- 49)) = 5573204538870989"
    by (rule rne_unique) simp
  then have "round64 (356685090487743283 / 36028797018963968) = Fin (of_int 5573204538870989 * 2 powi (- 49))"
    by (intro round64_cert) simp_all
  then show ?thesis by simp
qed

lemma tenth_4: "round64 (5685794529555251 / 562949953421312) = Fin (5685794529555251 / 562949953421312)"
proof -
  have "rne ((5685794529555251 / 562949953421312) / 2 powi (- 49)) = 5685794529555251"
    by (rule rne_unique) simp
  then have "round64 (5685794529555251 / 562949953421312) = Fin (of_int 5685794529555251 * 2 powi (- 49))"
    by (intro round64_cert) simp_all
  then show ?thesis by simp
qed

lemma tenth_5: "round64 (363890849891536077 / 36028797018963968) = Fin (5685794529555251 / 562949953421312)"
proof -
  have "rne ((363890849891536077 / 36028797018963968) / 2 powi (- 49)) = 5685794529555251"
    by (rule rne_unique) simp
  then have "round64 (363890849891536077 / 36028797018963968) = Fin (of_int 5685794529555251 * 2 powi (- 49))"
    by (intro round64_cert) simp_all
  then show ?thesis by simp
qed

lemma tenth_6: "round64 (98516241848729597 / 562949953421312) = Fin 175"
proof -
  have "rne ((98516241848729597 / 562949953421312) / 2 powi (- 45)) = 6157265115545600"
    by (rule rne_unique) simp
  then have "round64 (98516241848729597 / 562949953421312) = Fin (of_int 6157265115545600 * 2 powi (- 45))"
    by (intro round64_cert) simp_all
  then show ?thesis by simp
qed

lemma tenth_7: "round64 (104202036378284845 / 562949953421312) = Fin (6512627273642803 / 35184372088832)"
proof -
  have "rne ((104202036378284845 / 562949953421312) / 2 powi (- 45)) = 6512627273642803"
    by (rule rne_unique) simp
  then have "round64 (104202036378284845 / 562949953421312) = Fin (of_int 6512627273642803 * 2 powi (- 45))"
    by (intro round64_cert) simp_all
  then show ?thesis by simp
qed

lemma tenth_8: "round64 (6512627273642803 / 35184372088832) = Fin (6512627273642803 / 35184372088832)"
proof -
  have "rne ((6512627273642803 / 35184372088832) / 2 powi (- 45)) = 6512627273642803"
    by (rule rne_unique) simp
  then have "round64 (6512627273642803 / 35184372088832) = Fin (of_int 6512627273642803 * 2 powi (- 45))"
    by (intro round64_cert) simp_all
  then show ?thesis by simp
qed

lemma tenth_9: "round64 (109887830907840099 / 562949953421312) = Fin (3433994715870003 / 17592186044416)"
proof -
  have "rne ((109887830907840099 / 562949953421312) / 2 powi (- 45)) = 6867989431740006"
    by (rule rne_unique) simp
  then have "round64 (109887830907840099 / 562949953421312) = Fin (of_int 6867989431740006 * 2 powi (- 45))"
    by (intro round64_cert) simp_all
  then show ?thesis by simp
qed

lemma tenth_10: "round64 (7040392854975283 / 35184372088832) = Fin (7040392854975283 / 35184372088832)"
proof -
  have "rne ((7040392854975283 / 35184372088832) / 2 powi (- 45)) = 7040392854975283"
    by (rule rne_unique) simp
  then have "round64 (7040392854975283 / 35184372088832) = Fin (of_int 7040392854975283 * 2 powi (- 45))"
    by (intro round64_cert) simp_all
  then show ?thesis by simp
qed

lemma tenth_11: "round64 (7209362283494689997 / 36028797018963968) = Fin (7040392854975283 / 35184372088832)"
proof -
  have "rne ((7209362283494689997 / 36028797018963968) / 2 powi (- 45)) = 7040392854975283"
    by (rule rne_unique) simp
  then have "round64 (7209362283494689997 / 36028797018963968) = Fin (of_int 7040392854975283 * 2 powi (- 45))"
    by (intro round64_cert) simp_all
  then show ?thesis by simp
qed

lemma tenth_12: "round64 (7568158436307763 / 35184372088832) = Fin (7568158436307763 / 35184372088832)"
proof -
  have "rne ((7568158436307763 / 35184372088832) / 2 powi (- 45)) = 7568158436307763"
    by (rule rne_unique) simp
  then have "round64 (7568158436307763 / 35184372088832) = Fin (of_int 7568158436307763 * 2 powi (- 45))"
    by (intro round64_cert) simp_all
  then show ?thesis by simp
qed

lemmas tenth_roundings = tenth_1 tenth_2 tenth_3 tenth_4 tenth_5 tenth_6 tenth_7 tenth_8 tenth_9 tenth_10 tenth_11 tenth_12

text \<open>
  The claim as it was stated, for every outer region of width 200, fails where the
  operations round. With \<open>Min.X\<close> the float64 nearest to \<open>0.1\<close> the pass returns the
  origin \<open>10.1\<close> (as a float64), and the left box's left edge \<open>X(0) + (-10)\<close> comes out
  as \<open>0.09999999999999964\<close>, not as \<open>Min.X\<close>. The lemmas before the theorem are the
  roundings met on the way, each checked against the definition of \<open>round64\<close>.
\<close>

theorem padding_exactness_counterexample:
  "finite64 (X (Min_rect (mkArea (3602879701896397 / 36028797018963968) 0 200 100))) \<and>
   X_da (padX (mkAxisOps [] [])
      (mkPlot [glyphPlotter [mkBox 0 0 (- 10) 0 10 1, mkBox 1 0 0 0 15 1]])
      (mkArea (3602879701896397 / 36028797018963968) 0 200 100)) (Fin 0) + Fin (- 10)
     = Fin (56294995342131 / 562949953421312) \<and>
   X_da (padX (mkAxisOps [] [])
      (mkPlot [glyphPlotter [mkBox 0 0 (- 10) 0 10 1, mkBox 1 0 0 0 15 1]])
      (mkArea (3602879701896397 / 36028797018963968) 0 200 100)) (Fin 0) + Fin (- 10)
     \<noteq> X (Min_rect (mkArea (3602879701896397 / 36028797018963968) 0 200 100))"
  by (simp add: finite64_def padX_def Let_def example_defs tenth_roundings round64_minus)

subsection \<open>Coincident anchors\<close>

lemma singular_divisor: "feq a b \<Longrightarrow> a - b = Fin 0 \<or> a - b = NaN"
  by (cases a; cases b) (simp_all add: feq_def minus_float64_def)

lemma div_singular: "feq a b \<Longrightarrow> \<not> isFinite (x / (a - b))"
  using singular_divisor [of a b] by (cases x) (auto split: if_splits)

lemma minus_not_finite: "\<not> isFinite u \<Longrightarrow> \<not> isFinite v \<Longrightarrow> \<not> isFinite (u - v)"
  by (cases u; cases v) (simp_all add: minus_float64_def)

text \<open>
  Claim C3, as amended. When the selected left-most and right-most boxes have equal anchor
  fractions (\<open>lx == rx\<close>), \<^verbatim>\<open>padX\<close> raises no fault, and it does not skip the pass either:
  it divides by \<open>lx - rx\<close>, and the region it returns has a \<open>Min.X\<close> and a \<open>Size.X\<close>
  that are each NaN or infinite, with the \<open>Y\<close> extent of the input unchanged.
  Symmetrically for \<^verbatim>\<open>padY\<close> when \<open>by == ty\<close>.
\<close>

theorem singular_anchors_not_skipped:
  "(feq (padX_lx ax p da) (padX_rx ax p da) \<longrightarrow>
      \<not> isFinite (X (Min_rect (padX ax p da))) \<and> \<not> isFinite (X (Size (padX ax p da))) \<and>
      Y (Min_rect (padX ax p da)) = Y (Min_rect da) \<and> Y (Size (padX ax p da)) = Y (Size da)) \<and>
   (feq (padY_by ax p da) (padY_ty ax p da) \<longrightarrow>
      \<not> isFinite (Y (Min_rect (padY ax p da))) \<and> \<not> isFinite (Y (Size (padY ax p da))) \<and>
      X (Min_rect (padY ax p da)) = X (Min_rect da) \<and> X (Size (padY ax p da)) = X (Size da))"
  by (simp add: padX_fields padY_fields solved_Min_def solved_Size_def div_singular minus_not_finite)

theorem singular_anchors_not_skipped_witness:
  "feq (padX_lx (mkAxisOps [] []) (mkPlot [glyphPlotter [mkBox (1/2) (1/2) (- 5) (- 5) 10 10]])
         (mkArea 0 0 8 8))
       (padX_rx (mkAxisOps [] []) (mkPlot [glyphPlotter [mkBox (1/2) (1/2) (- 5) (- 5) 10 10]])
         (mkArea 0 0 8 8)) \<and>
   \<not> isFinite (X (Size (padX (mkAxisOps [] [])
        (mkPlot [glyphPlotter [mkBox (1/2) (1/2) (- 5) (- 5) 10 10]]) (mkArea 0 0 8 8)))) \<and>
   feq (padY_by (mkAxisOps [] []) (mkPlot [glyphPlotter [mkBox (1/2) (1/2) (- 5) (- 5) 10 10]])
         (mkArea 0 0 8 8))
       (padY_ty (mkAxisOps [] []) (mkPlot [glyphPlotter [mkBox (1/2) (1/2) (- 5) (- 5) 10 10]])
         (mkArea 0 0 8 8)) \<and>
   \<not> isFinite (Y (Size (padY (mkAxisOps [] [])
        (mkPlot [glyphPlotter [mkBox (1/2) (1/2) (- 5) (- 5) 10 10]]) (mkArea 0 0 8 8))))"
proof -
  have x: "feq (padX_lx (mkAxisOps [] []) (mkPlot [glyphPlotter [mkBox (1/2) (1/2) (- 5) (- 5) 10 10]])
         (mkArea 0 0 8 8))
       (padX_rx (mkAxisOps [] []) (mkPlot [glyphPlotter [mkBox (1/2) (1/2) (- 5) (- 5) 10 10]])
         (mkArea 0 0 8 8))"
    by (simp add: feq_def pad_quantities example_defs)
  have y: "feq (padY_by (mkAxisOps [] []) (mkPlot [glyphPlotter [mkBox (1/2) (1/2) (- 5) (- 5) 10 10]])
         (mkArea 0 0 8 8))
       (padY_ty (mkAxisOps [] []) (mkPlot [glyphPlotter [mkBox (1/2) (1/2) (- 5) (- 5) 10 10]])
         (mkArea 0 0 8 8))"
    by (simp add: feq_def pad_quantities example_defs)
  show ?thesis
    using x y singular_anchors_not_skipped [of "mkAxisOps [] []"
        "mkPlot [glyphPlotter [mkBox (1/2) (1/2) (- 5) (- 5) 10 10]]" "mkArea 0 0 8 8"]
    by blast
qed

text \<open>
  The claim as it was stated fails for a single glyph of radius 5 in the middle of a
  region 8 units wide: it is the left-most and the right-most box, and the returned region
  starts at \<open>-\<infinity>\<close> with size \<open>+\<infinity>\<close>.
\<close>

theorem singular_anchors_counterexample:
  "feq (padX_lx (mkAxisOps [] []) (mkPlot [glyphPlotter [mkBox (1/2) (1/2) (- 5) (- 5) 10 10]])
         (mkArea 0 0 8 8))
       (padX_rx (mkAxisOps [] []) (mkPlot [glyphPlotter [mkBox (1/2) (1/2) (- 5) (- 5) 10 10]])
         (mkArea 0 0 8 8)) \<and>
   padX (mkAxisOps [] []) (mkPlot [glyphPlotter [mkBox (1/2) (1/2) (- 5) (- 5) 10 10]])
     (mkArea 0 0 8 8) \<noteq> mkArea 0 0 8 8 \<and>
   X (Min_rect (padX (mkAxisOps [] []) (mkPlot [glyphPlotter [mkBox (1/2) (1/2) (- 5) (- 5) 10 10]])
     (mkArea 0 0 8 8))) = NInf \<and>
   X (Size (padX (mkAxisOps [] []) (mkPlot [glyphPlotter [mkBox (1/2) (1/2) (- 5) (- 5) 10 10]])
     (mkArea 0 0 8 8))) = PInf"
  by (simp add: feq_def padX_def Let_def pad_quantities example_defs minus_float64_def)

subsection \<open>No glyph at the edges\<close>

lemma round64_idem:
  assumes "round64 x = Fin y"
  shows "round64 y = Fin y"
proof -
  from assms have thr: "\<bar>x\<bar> < 2 ^ 1024 - 2 ^ 970"
    by (auto simp: round64_def split: if_splits)
  then have big: "\<bar>x\<bar> < 2 ^ 1024" by simp
  define k where "k = qexp \<bar>x\<bar>"
  define m where "m = rne (x / 2 powi k)"
  from assms thr have y: "y = real_of_int m * 2 powi k"
    by (simp add: round64_def k_def m_def Let_def)
  note q = qexp_spec [OF big, folded k_def]
  have pos: "(0::real) < 2 powi k" by simp
  have "\<bar>x / 2 powi k\<bar> = \<bar>x\<bar> / 2 powi k" by simp
  also have "\<dots> < 2 powi (k + 53) / 2 powi k"
    using q(3) pos by (simp add: divide_strict_right_mono)
  also have "\<dots> = 2 ^ 53" by (simp add: power_int_add)
  finally have lt: "\<bar>x / 2 powi k\<bar> < 2 ^ 53" .
  have near: "\<bar>x / 2 powi k - real_of_int m\<bar> \<le> 1 / 2"
    using rne_spec [of "x / 2 powi k"] by (auto simp: m_def)
  from lt near have "\<bar>real_of_int m\<bar> < 2 ^ 53 + 1" by linarith
  then have "real_of_int \<bar>m\<bar> < real_of_int (2 ^ 53 + 1)" by simp
  then have m_le: "\<bar>m\<bar> \<le> 2 ^ 53" by (simp only: of_int_less_iff)
  show ?thesis
  proof (cases "\<bar>m\<bar> < 2 ^ 53")
    case True
    then show ?thesis using y q(1,2) by (intro round64_dyadic [of y m k]) simp_all
  next
    case False
    with m_le have m53: "\<bar>m\<bar> = 2 ^ 53" by simp
    have k970: "k \<le> 970"
    proof (rule ccontr)
      assume "\<not> k \<le> 970"
      with q(2) have k: "k = 971" by simp
      from m53 have "\<bar>real_of_int m\<bar> = 2 ^ 53"
        by (metis of_int_abs of_int_numeral of_int_power)
      with near have "2 ^ 53 - 1 / 2 \<le> \<bar>x / 2 powi k\<bar>" by linarith
      then have "2 ^ 53 - 1 / 2 \<le> \<bar>x\<bar> / 2 ^ 971" by (simp add: k)
      then have "(2 ^ 53 - 1 / 2) * 2 ^ 971 \<le> \<bar>x\<bar>" by (simp add: pos_le_divide_eq)
      with thr show False by simp
    qed
    from m53 have "even m" by (metis even_abs_add_iff even_add even_numeral even_power zero_less_numeral)
    then obtain h where h: "m = 2 * h" by (auto elim: evenE)
    with m53 have "\<bar>h\<bar> < 2 ^ 53" by simp
    moreover have "y = real_of_int h * 2 powi (k + 1)"
      by (simp add: y h power_int_add)
    ultimately show ?thesis
      using q(1) k970 by (intro round64_dyadic [of y h "k + 1"]) simp_all
  qed
qed

lemma plus_finite_idem:
  assumes "u + v = Fin y"
  shows "round64 y = Fin y"
  using assms by (cases u; cases v) (auto dest: round64_idem)

lemma leftMost_loop_none:
  "\<forall>b \<in> set boxes. \<not> (leftEdge da b < minx \<and> 0 \<le> X_glyph b) \<Longrightarrow>
   leftMost_loop da boxes minx l = l"
  by (induction boxes) (auto simp: leftEdge_def Let_def)

lemma rightMost_loop_none:
  "\<forall>b \<in> set boxes. \<not> (maxx < rightEdge da b \<and> X_glyph b \<le> 1) \<Longrightarrow>
   rightMost_loop da boxes maxx r = r"
  by (induction boxes) (auto simp: rightEdge_def Let_def)

lemma bottomMost_loop_none:
  "\<forall>b \<in> set boxes. \<not> (bottomEdge da b < miny \<and> 0 \<le> Y_glyph b) \<Longrightarrow>
   bottomMost_loop da boxes miny l = l"
  by (induction boxes) (auto simp: bottomEdge_def Let_def)

lemma topMost_loop_none:
  "\<forall>b \<in> set boxes. \<not> (maxy < topEdge da b \<and> Y_glyph b \<le> 1) \<Longrightarrow>
   topMost_loop da boxes maxy t = t"
  by (induction boxes) (auto simp: topEdge_def Let_def)


lemma padX_sentinels_Min:
  assumes "finite64 (X (Min_rect da))" "isFinite (X (Max_rect da))"
  shows "X (Min_rect (padX_solve da GlyphBox_zero GlyphBox_X1)) = X (Min_rect da)"
proof -
  from assms(1) obtain a where a: "X (Min_rect da) = Fin a" "round64 a = Fin a"
    by (auto simp: finite64_def split: float64.splits)
  from assms(2) obtain M where M: "X (Min_rect da) + X (Size da) = Fin M"
    by (cases "X (Min_rect da) + X (Size da)") (simp_all add: Max_rect_def)
  note r = plus_finite_idem [OF M]
  show ?thesis
    using a M r
    by (simp add: padX_solve_def Let_def Max_rect_def GlyphBox_zero_def GlyphBox_X1_def round64_minus)
qed

lemma padY_sentinels_Min:
  assumes "finite64 (Y (Min_rect da))" "isFinite (Y (Max_rect da))"
  shows "Y (Min_rect (padY_solve da GlyphBox_zero GlyphBox_Y1)) = Y (Min_rect da)"
proof -
  from assms(1) obtain a where a: "Y (Min_rect da) = Fin a" "round64 a = Fin a"
    by (auto simp: finite64_def split: float64.splits)
  from assms(2) obtain M where M: "Y (Min_rect da) + Y (Size da) = Fin M"
    by (cases "Y (Min_rect da) + Y (Size da)") (simp_all add: Max_rect_def)
  note r = plus_finite_idem [OF M]
  show ?thesis
    using a M r
    by (simp add: padY_solve_def Let_def Max_rect_def GlyphBox_zero_def GlyphBox_Y1_def round64_minus)
qed

lemma padX_sentinels_integer:
  assumes "integer40 (X (Min_rect da))" "integer40 (X (Size da))"
  shows "padX_solve da GlyphBox_zero GlyphBox_X1 = da"
proof -
  from assms obtain a w where "X (Min_rect da) = Fin a" "a \<in> \<int>" "\<bar>a\<bar> \<le> 2 ^ 40"
    "X (Size da) = Fin w" "w \<in> \<int>" "\<bar>w\<bar> \<le> 2 ^ 40"
    by (auto simp: integer40_def split: float64.splits)
  then show ?thesis
    by (simp add: padX_solve_def Let_def Max_rect_def GlyphBox_zero_def GlyphBox_X1_def
        round64_int round64_minus)
qed

lemma padY_sentinels_integer:
  assumes "integer40 (Y (Min_rect da))" "integer40 (Y (Size da))"
  shows "padY_solve da GlyphBox_zero GlyphBox_Y1 = da"
proof -
  from assms obtain a w where "Y (Min_rect da) = Fin a" "a \<in> \<int>" "\<bar>a\<bar> \<le> 2 ^ 40"
    "Y (Size da) = Fin w" "w \<in> \<int>" "\<bar>w\<bar> \<le> 2 ^ 40"
    by (auto simp: integer40_def split: float64.splits)
  then show ?thesis
    by (simp add: padY_solve_def Let_def Max_rect_def GlyphBox_zero_def GlyphBox_Y1_def
        round64_int round64_minus)
qed

text \<open>
  Claim C4, as amended. If no glyph box reaches over an edge of the region (no box of the
  plot with anchor \<open>X \<ge> 0\<close> lies left of the region's left edge, no box of the plot or
  of the x axis with anchor \<open>X \<le> 1\<close> lies right of its right edge, and likewise below
  and above with the boxes of the y axis), then the sentinel boxes at anchors 0 and 1 with
  zero offset are used on both sides. For a region of finite float64 values with a finite
  \<open>Max\<close>, each pass then keeps the \<open>Min\<close> on both axes and the \<open>Size\<close> on the
  other axis, and computes the \<open>Size\<close> on its own axis anew. Where \<open>Min\<close> and \<open>Size\<close> are integers of magnitude
  at most \<open>2^40\<close> no operation rounds, and the pass returns the region it was given,
  with the same \<open>Min\<close> and the same \<open>Size\<close> on both axes: \<^verbatim>\<open>padX\<close> does, \<^verbatim>\<open>padY\<close>
  does, and so does their composition.
\<close>

theorem no_overhang_identity:
  assumes "\<forall>b \<in> set (GlyphBoxes p). \<not> overhangsLeft da b"
    and "\<forall>b \<in> set (GlyphBoxes p @ hGlyphBoxes ax (X_axis p) p). \<not> overhangsRight da b"
    and "\<forall>b \<in> set (GlyphBoxes p). \<not> overhangsBottom da b"
    and "\<forall>b \<in> set (GlyphBoxes p @ vGlyphBoxes ax (Y_axis p) p). \<not> overhangsTop da b"
  shows "leftMost da (GlyphBoxes p) = GlyphBox_zero \<and>
         rightMost da (GlyphBoxes p @ hGlyphBoxes ax (X_axis p) p) = GlyphBox_X1 \<and>
         bottomMost da (GlyphBoxes p) = GlyphBox_zero \<and>
         topMost da (GlyphBoxes p @ vGlyphBoxes ax (Y_axis p) p) = GlyphBox_Y1 \<and>
         (finite64 (X (Min_rect da)) \<and> isFinite (X (Max_rect da)) \<longrightarrow>
            X (Min_rect (padX ax p da)) = X (Min_rect da) \<and>
            Y (Min_rect (padX ax p da)) = Y (Min_rect da) \<and>
            Y (Size (padX ax p da)) = Y (Size da)) \<and>
         (finite64 (Y (Min_rect da)) \<and> isFinite (Y (Max_rect da)) \<longrightarrow>
            Y (Min_rect (padY ax p da)) = Y (Min_rect da) \<and>
            X (Min_rect (padY ax p da)) = X (Min_rect da) \<and>
            X (Size (padY ax p da)) = X (Size da)) \<and>
         (integer40 (X (Min_rect da)) \<and> integer40 (X (Size da)) \<longrightarrow> padX ax p da = da) \<and>
         (integer40 (Y (Min_rect da)) \<and> integer40 (Y (Size da)) \<longrightarrow> padY ax p da = da) \<and>
         (integer40 (X (Min_rect da)) \<and> integer40 (X (Size da)) \<and>
          integer40 (Y (Min_rect da)) \<and> integer40 (Y (Size da)) \<longrightarrow>
            padY ax p (padX ax p da) = da)"
proof -
  have l: "leftMost da (GlyphBoxes p) = GlyphBox_zero"
    unfolding leftMost_def using assms(1)
    by (intro leftMost_loop_none) (simp add: overhangsLeft_def)
  have r: "rightMost da (GlyphBoxes p @ hGlyphBoxes ax (X_axis p) p) = GlyphBox_X1"
    unfolding rightMost_def using assms(2)
    by (intro rightMost_loop_none) (simp add: overhangsRight_def)
  have b: "bottomMost da (GlyphBoxes p) = GlyphBox_zero"
    unfolding bottomMost_def using assms(3)
    by (intro bottomMost_loop_none) (simp add: overhangsBottom_def)
  have t: "topMost da (GlyphBoxes p @ vGlyphBoxes ax (Y_axis p) p) = GlyphBox_Y1"
    unfolding topMost_def using assms(4)
    by (intro topMost_loop_none) (simp add: overhangsTop_def)
  have x: "padX ax p da = padX_solve da GlyphBox_zero GlyphBox_X1"
    by (simp add: padX_by_solve l r)
  have y: "padY ax p da = padY_solve da GlyphBox_zero GlyphBox_Y1"
    by (simp add: padY_by_solve b t)
  show ?thesis
    using l r b t padX_sentinels_Min [of da] padY_sentinels_Min [of da]
      padX_sentinels_integer [of da] padY_sentinels_integer [of da]
    by (auto simp add: x y padX_fields(3,4) [of ax p da, unfolded x]
        padY_fields(3,4) [of ax p da, unfolded y])
qed

theorem no_overhang_identity_witness:
  "padX (mkAxisOps [mkBox 0 0 0 (- 8) 4 8, mkBox 1 0 (- 4) (- 8) 4 8] [])
     (mkPlot [glyphPlotter [mkBox (1/2) (1/2) (- 5) (- 5) 10 10]]) (mkArea 20 10 200 100)
     = mkArea 20 10 200 100 \<and>
   padY (mkAxisOps [mkBox 0 0 0 (- 8) 4 8, mkBox 1 0 (- 4) (- 8) 4 8] [])
     (mkPlot [glyphPlotter [mkBox (1/2) (1/2) (- 5) (- 5) 10 10]]) (mkArea 20 10 200 100)
     = mkArea 20 10 200 100 \<and>
   padY (mkAxisOps [mkBox 0 0 0 (- 8) 4 8, mkBox 1 0 (- 4) (- 8) 4 8] [])
     (mkPlot [glyphPlotter [mkBox (1/2) (1/2) (- 5) (- 5) 10 10]])
     (padX (mkAxisOps [mkBox 0 0 0 (- 8) 4 8, mkBox 1 0 (- 4) (- 8) 4 8] [])
        (mkPlot [glyphPlotter [mkBox (1/2) (1/2) (- 5) (- 5) 10 10]]) (mkArea 20 10 200 100))
     = mkArea 20 10 200 100"
  using no_overhang_identity [where da = "mkArea 20 10 200 100"
      and p = "mkPlot [glyphPlotter [mkBox (1/2) (1/2) (- 5) (- 5) 10 10]]"
      and ax = "mkAxisOps [mkBox 0 0 0 (- 8) 4 8, mkBox 1 0 (- 4) (- 8) 4 8] []"]
  by (simp add: mkBox_def mkArea_def mkAxisOps_def X_da_def Y_da_def Max_rect_def
      overhangsLeft_def overhangsRight_def overhangsBottom_def overhangsTop_def
      leftEdge_def rightEdge_def bottomEdge_def topEdge_def integer40_def)


lemma fifth_1: "round64 (3602879701896397 / 36028797018963968) = Fin (3602879701896397 / 36028797018963968)"
proof -
  have "rne ((3602879701896397 / 36028797018963968) / 2 powi (- 56)) = 7205759403792794"
    by (rule rne_unique) simp
  then have "round64 (3602879701896397 / 36028797018963968) = Fin (of_int 7205759403792794 * 2 powi (- 56))"
    by (intro round64_cert) simp_all
  then show ?thesis by simp
qed

lemma fifth_2: "round64 (3602879701896397 / 18014398509481984) = Fin (3602879701896397 / 18014398509481984)"
proof -
  have "rne ((3602879701896397 / 18014398509481984) / 2 powi (- 55)) = 7205759403792794"
    by (rule rne_unique) simp
  then have "round64 (3602879701896397 / 18014398509481984) = Fin (of_int 7205759403792794 * 2 powi (- 55))"
    by (intro round64_cert) simp_all
  then show ?thesis by simp
qed

lemma fifth_3: "round64 (7205759403792795 / 36028797018963968) = Fin (7205759403792795 / 36028797018963968)"
proof -
  have "rne ((7205759403792795 / 36028797018963968) / 2 powi (- 55)) = 7205759403792795"
    by (rule rne_unique) simp
  then have "round64 (7205759403792795 / 36028797018963968) = Fin (of_int 7205759403792795 * 2 powi (- 55))"
    by (intro round64_cert) simp_all
  then show ?thesis by simp
qed

lemma fifth_4: "round64 (10808639105689191 / 36028797018963968) = Fin (1351079888211149 / 4503599627370496)"
proof -
  have "rne ((10808639105689191 / 36028797018963968) / 2 powi (- 54)) = 5404319552844596"
    by (rule rne_unique) simp
  then have "round64 (10808639105689191 / 36028797018963968) = Fin (of_int 5404319552844596 * 2 powi (- 54))"
    by (intro round64_cert) simp_all
  then show ?thesis by simp
qed

lemma fifth_5: "round64 (1351079888211149 / 4503599627370496) = Fin (1351079888211149 / 4503599627370496)"
proof -
  have "rne ((1351079888211149 / 4503599627370496) / 2 powi (- 54)) = 5404319552844596"
    by (rule rne_unique) simp
  then have "round64 (1351079888211149 / 4503599627370496) = Fin (of_int 5404319552844596 * 2 powi (- 54))"
    by (intro round64_cert) simp_all
  then show ?thesis by simp
qed

lemma fifth_6: "round64 (14411518807585589 / 36028797018963968) = Fin (3602879701896397 / 9007199254740992)"
proof -
  have "rne ((14411518807585589 / 36028797018963968) / 2 powi (- 54)) = 7205759403792794"
    by (rule rne_unique) simp
  then have "round64 (14411518807585589 / 36028797018963968) = Fin (of_int 7205759403792794 * 2 powi (- 54))"
    by (intro round64_cert) simp_all
  then show ?thesis by simp
qed

lemmas fifth_roundings = fifth_1 fifth_2 fifth_3 fifth_4 fifth_5 fifth_6

text \<open>
  The claim as it was stated fails twice. For boxes anchored neither at nor beyond
  \<open>[0, 1]\<close>: a glyph of radius 5 anchored at \<open>X = 1/4\<close> of a region 8 units wide
  reaches 3 units over the left edge and is selected instead of the sentinel, and the
  region returned starts at 4 with width 4. And with no glyph box at all: for
  \<open>Min.X\<close> and \<open>Size.X\<close> the float64 values nearest to \<open>0.1\<close> and \<open>0.2\<close> the
  size is computed anew as \<open>0.20000000000000004\<close>. The lemmas before the theorem are
  the roundings met on the way.
\<close>

theorem no_glyph_identity_counterexample:
  "anchoredInside (mkBox (1/4) (1/2) (- 5) (- 1) 10 2) \<and>
   GlyphBoxes (mkPlot [glyphPlotter [mkBox (1/4) (1/2) (- 5) (- 1) 10 2]]) @
     hGlyphBoxes (mkAxisOps [] []) (X_axis (mkPlot [glyphPlotter [mkBox (1/4) (1/2) (- 5) (- 1) 10 2]]))
       (mkPlot [glyphPlotter [mkBox (1/4) (1/2) (- 5) (- 1) 10 2]])
     = [mkBox (1/4) (1/2) (- 5) (- 1) 10 2] \<and>
   padX (mkAxisOps [] []) (mkPlot [glyphPlotter [mkBox (1/4) (1/2) (- 5) (- 1) 10 2]]) (mkArea 0 0 8 8)
     = mkArea 4 0 4 8 \<and>
   mkArea 4 0 4 8 \<noteq> mkArea 0 0 8 8 \<and>
   finite64 (X (Min_rect (mkArea (3602879701896397 / 36028797018963968) 0 (3602879701896397 / 18014398509481984) 8))) \<and>
   finite64 (X (Size (mkArea (3602879701896397 / 36028797018963968) 0 (3602879701896397 / 18014398509481984) 8))) \<and>
   GlyphBoxes (mkPlot []) @ hGlyphBoxes (mkAxisOps [] []) (X_axis (mkPlot [])) (mkPlot []) = [] \<and>
   X (Size (padX (mkAxisOps [] []) (mkPlot []) (mkArea (3602879701896397 / 36028797018963968) 0 (3602879701896397 / 18014398509481984) 8))) = Fin (7205759403792795 / 36028797018963968) \<and>
   Fin (7205759403792795 / 36028797018963968) \<noteq> X (Size (mkArea (3602879701896397 / 36028797018963968) 0 (3602879701896397 / 18014398509481984) 8))"
  by (simp add: anchoredInside_def finite64_def padX_def Let_def mkBox_def mkArea_def mkAxisOps_def
      X_da_def Max_rect_def leftMost_def rightMost_def GlyphBox_zero_def GlyphBox_X1_def
      fifth_roundings round64_minus)

subsection \<open>Add\<close>

lemma fle_trans: "(x::float64) \<le> y \<Longrightarrow> y \<le> z \<Longrightarrow> x \<le> z"
  by (cases x; cases y; cases z) (auto simp add: less_eq_float64_def)

lemma fle_refl: "x \<noteq> NaN \<Longrightarrow> (x::float64) \<le> x"
  by (simp add: less_eq_float64_def)

lemma math_Min_numeric:
  "x \<noteq> NaN \<Longrightarrow> y \<noteq> NaN \<Longrightarrow>
   math_Min x y \<noteq> NaN \<and> math_Min x y \<le> x \<and> math_Min x y \<le> y \<and>
   (math_Min x y = x \<or> math_Min x y = y)"
  by (cases x; cases y) (auto simp add: math_Min_def less_eq_float64_def)

lemma math_Max_numeric:
  "x \<noteq> NaN \<Longrightarrow> y \<noteq> NaN \<Longrightarrow>
   math_Max x y \<noteq> NaN \<and> x \<le> math_Max x y \<and> y \<le> math_Max x y \<and>
   (math_Max x y = x \<or> math_Max x y = y)"
  by (cases x; cases y) (auto simp add: math_Max_def less_eq_float64_def)

lemma foldl_Min_numeric:
  "s \<noteq> NaN \<Longrightarrow> NaN \<notin> set xs \<Longrightarrow>
   foldl math_Min s xs \<noteq> NaN \<and> foldl math_Min s xs \<le> s \<and>
   (\<forall>x \<in> set xs. foldl math_Min s xs \<le> x) \<and> foldl math_Min s xs \<in> set (s # xs)"
proof (induction xs arbitrary: s)
  case Nil
  then show ?case by (simp add: fle_refl)
next
  case (Cons x xs)
  then have x: "x \<noteq> NaN" and xs: "NaN \<notin> set xs" by auto
  note m = math_Min_numeric [OF Cons.prems(1) x]
  from m have "math_Min s x \<noteq> NaN" by simp
  from Cons.IH [OF this xs] m show ?case
    by (auto intro: fle_trans)
qed

lemma foldl_Max_numeric:
  "s \<noteq> NaN \<Longrightarrow> NaN \<notin> set xs \<Longrightarrow>
   foldl math_Max s xs \<noteq> NaN \<and> s \<le> foldl math_Max s xs \<and>
   (\<forall>x \<in> set xs. x \<le> foldl math_Max s xs) \<and> foldl math_Max s xs \<in> set (s # xs)"
proof (induction xs arbitrary: s)
  case Nil
  then show ?case by (simp add: fle_refl)
next
  case (Cons x xs)
  then have x: "x \<noteq> NaN" and xs: "NaN \<notin> set xs" by auto
  note m = math_Max_numeric [OF Cons.prems(1) x]
  from m have "math_Max s x \<noteq> NaN" by simp
  from Cons.IH [OF this xs] m show ?case
    by (auto intro: fle_trans)
qed

lemma reported_Cons:
  "reported (d # ps) = (case DataRanger d of None \<Rightarrow> reported ps | Some r \<Rightarrow> r # reported ps)"
  by (simp add: reported_def split: option.split)

lemma reported_Nil [simp]: "reported [] = []"
  by (simp add: reported_def)

lemma reported_append: "reported (ps @ qs) = reported ps @ reported qs"
  by (induction ps) (simp_all add: reported_Cons split: option.split)

lemma Add_loop_bounds:
  "Min_axis (X_axis (Add_loop p ps)) = foldl math_Min (Min_axis (X_axis p)) (map xmin_of (reported ps))"
  "Max_axis (X_axis (Add_loop p ps)) = foldl math_Max (Max_axis (X_axis p)) (map xmax_of (reported ps))"
  "Min_axis (Y_axis (Add_loop p ps)) = foldl math_Min (Min_axis (Y_axis p)) (map ymin_of (reported ps))"
  "Max_axis (Y_axis (Add_loop p ps)) = foldl math_Max (Max_axis (Y_axis p)) (map ymax_of (reported ps))"
  by (induction p ps rule: Add_loop.induct;
      simp add: reported_Cons xmin_of_def xmax_of_def ymin_of_def ymax_of_def
        split: option.split prod.split)+

lemma Add_plotters: "plotters (Add p ps) = plotters p @ ps"
  by (simp add: Add_def Let_def Add_loop_plotters)

lemma Add_bounds:
  "Min_axis (X_axis (Add p ps)) = foldl math_Min (Min_axis (X_axis p)) (map xmin_of (reported ps))"
  "Max_axis (X_axis (Add p ps)) = foldl math_Max (Max_axis (X_axis p)) (map xmax_of (reported ps))"
  "Min_axis (Y_axis (Add p ps)) = foldl math_Min (Min_axis (Y_axis p)) (map ymin_of (reported ps))"
  "Max_axis (Y_axis (Add p ps)) = foldl math_Max (Max_axis (Y_axis p)) (map ymax_of (reported ps))"
  by (simp_all add: Add_def Let_def Add_loop_bounds)

lemma Add_trace_not_Nil [simp]: "Add_trace p pss \<noteq> []"
  by (cases pss) simp_all

lemma Add_trace_last_bounds:
  "Min_axis (X_axis (last (Add_trace p pss))) =
     foldl math_Min (Min_axis (X_axis p)) (map xmin_of (reported (concat pss)))"
  "Max_axis (X_axis (last (Add_trace p pss))) =
     foldl math_Max (Max_axis (X_axis p)) (map xmax_of (reported (concat pss)))"
  "Min_axis (Y_axis (last (Add_trace p pss))) =
     foldl math_Min (Min_axis (Y_axis p)) (map ymin_of (reported (concat pss)))"
  "Max_axis (Y_axis (last (Add_trace p pss))) =
     foldl math_Max (Max_axis (Y_axis p)) (map ymax_of (reported (concat pss)))"
  by (induction pss arbitrary: p; simp add: Add_bounds reported_append)+

lemma Add_trace_last_plotters:
  "plotters (last (Add_trace p pss)) = plotters p @ concat pss"
  by (induction pss arbitrary: p) (simp_all add: Add_plotters)


lemma numeric_components:
  assumes "\<forall>r \<in> set rs. numeric_range r"
  shows "NaN \<notin> set (map xmin_of rs)" "NaN \<notin> set (map xmax_of rs)"
    "NaN \<notin> set (map ymin_of rs)" "NaN \<notin> set (map ymax_of rs)"
  using assms by (auto simp: numeric_range_def)

lemma Add_numeric:
  assumes "numeric_axes p" and "\<forall>r \<in> set (reported ps). numeric_range r"
  shows "numeric_axes (Add p ps)" and "widened p (Add p ps)"
proof -
  note c = numeric_components [OF assms(2)]
  from assms(1) have a: "Min_axis (X_axis p) \<noteq> NaN" "Max_axis (X_axis p) \<noteq> NaN"
    "Min_axis (Y_axis p) \<noteq> NaN" "Max_axis (Y_axis p) \<noteq> NaN"
    by (simp_all add: numeric_axes_def)
  note f = foldl_Min_numeric [OF a(1) c(1)] foldl_Max_numeric [OF a(2) c(2)]
    foldl_Min_numeric [OF a(3) c(3)] foldl_Max_numeric [OF a(4) c(4)]
  from f show "numeric_axes (Add p ps)"
    by (simp add: numeric_axes_def Add_bounds)
  from f show "widened p (Add p ps)"
    by (simp add: widened_def Add_bounds)
qed

lemma successively_Add_trace:
  "successively P (p # Add_trace q pss) \<longleftrightarrow> P p q \<and> successively P (Add_trace q pss)"
  by (cases pss) simp_all

lemma Add_trace_widened:
  "numeric_axes p \<Longrightarrow> \<forall>r \<in> set (reported (concat pss)). numeric_range r \<Longrightarrow>
   successively widened (Add_trace p pss)"
proof (induction pss arbitrary: p)
  case Nil
  then show ?case by simp
next
  case (Cons ps pss)
  from Cons.prems(2) have ps: "\<forall>r \<in> set (reported ps). numeric_range r"
    and pss: "\<forall>r \<in> set (reported (concat pss)). numeric_range r"
    by (simp_all add: reported_append)
  from Add_numeric [OF Cons.prems(1) ps] Cons.IH [OF _ pss] show ?case
    by (simp add: successively_Add_trace)
qed

lemmas plot_example_defs = rangePlotter_def silentPlotter_def mkPlot_def Add_def Let_def
  math_Min_def math_Max_def widened_def covers_def tight_def numeric_axes_def numeric_range_def
  xmin_of_def xmax_of_def ymin_of_def ymax_of_def reported_def less_eq_float64_def

text \<open>
  Claim C6, as amended. Take a plot whose four axis bounds are not NaN and any sequence of
  \<^verbatim>\<open>Add\<close> calls in which no \<^verbatim>\<open>DataRanger\<close> reports a NaN component. Then from each plot of
  the sequence to the next the \<open>Min\<close> of the X and of the Y axis does not increase and
  the \<open>Max\<close> does not decrease; after the calls the axes cover every range reported by
  an added \<^verbatim>\<open>DataRanger\<close>, and exactly so, each bound being the bound before the calls
  or a reported value; and the plotter list is the list before followed by all the given
  plotters in order, whether they are \<^verbatim>\<open>DataRanger\<close>s or not.
\<close>

theorem Add_monotonic_widening:
  assumes "numeric_axes p" and "\<forall>r \<in> set (reported (concat pss)). numeric_range r"
  shows "successively widened (Add_trace p pss) \<and>
         (\<forall>r \<in> set (reported (concat pss)). covers (last (Add_trace p pss)) r) \<and>
         tight p (reported (concat pss)) (last (Add_trace p pss)) \<and>
         plotters (last (Add_trace p pss)) = plotters p @ concat pss"
proof -
  note c = numeric_components [OF assms(2)]
  from assms(1) have a: "Min_axis (X_axis p) \<noteq> NaN" "Max_axis (X_axis p) \<noteq> NaN"
    "Min_axis (Y_axis p) \<noteq> NaN" "Max_axis (Y_axis p) \<noteq> NaN"
    by (simp_all add: numeric_axes_def)
  note f = foldl_Min_numeric [OF a(1) c(1)] foldl_Max_numeric [OF a(2) c(2)]
    foldl_Min_numeric [OF a(3) c(3)] foldl_Max_numeric [OF a(4) c(4)]
  from f have "\<forall>r \<in> set (reported (concat pss)). covers (last (Add_trace p pss)) r"
    by (simp add: covers_def Add_trace_last_bounds)
  moreover from f have "tight p (reported (concat pss)) (last (Add_trace p pss))"
    by (simp add: tight_def Add_trace_last_bounds)
  ultimately show ?thesis
    using Add_trace_widened [OF assms] by (simp add: Add_trace_last_plotters)
qed

theorem Add_monotonic_widening_witness:
  "Add_trace (mkPlot [])
     [[rangePlotter (Fin 2, Fin 3, Fin (- 1), Fin (1/2)), silentPlotter],
      [rangePlotter (Fin (- 4), Fin 1, Fin 0, PInf)]]
   = [mkPlot [],
      (mkPlot [rangePlotter (Fin 2, Fin 3, Fin (- 1), Fin (1/2)), silentPlotter])
        \<lparr>X_axis := \<lparr>Min_axis = Fin 0, Max_axis = Fin 3\<rparr>,
         Y_axis := \<lparr>Min_axis = Fin (- 1), Max_axis = Fin 1\<rparr>\<rparr>,
      (mkPlot [rangePlotter (Fin 2, Fin 3, Fin (- 1), Fin (1/2)), silentPlotter,
               rangePlotter (Fin (- 4), Fin 1, Fin 0, PInf)])
        \<lparr>X_axis := \<lparr>Min_axis = Fin (- 4), Max_axis = Fin 3\<rparr>,
         Y_axis := \<lparr>Min_axis = Fin (- 1), Max_axis = PInf\<rparr>\<rparr>] \<and>
   successively widened (Add_trace (mkPlot [])
     [[rangePlotter (Fin 2, Fin 3, Fin (- 1), Fin (1/2)), silentPlotter],
      [rangePlotter (Fin (- 4), Fin 1, Fin 0, PInf)]])"
  using Add_monotonic_widening [of "mkPlot []"
     "[[rangePlotter (Fin 2, Fin 3, Fin (- 1), Fin (1/2)), silentPlotter],
       [rangePlotter (Fin (- 4), Fin 1, Fin 0, PInf)]]"]
  by (simp add: plot_example_defs)

text \<open>
  The claim as it was stated, for every sequence, fails when a plotter reports NaN as its
  \<open>xmin\<close>: the X axis's \<open>Min\<close> becomes NaN, which is not below the bound before and
  does not cover the finite range of the next plotter.
\<close>

theorem Add_monotonic_widening_counterexample:
  "\<not> widened (mkPlot [])
       (Add (mkPlot []) [rangePlotter (NaN, Fin 2, Fin 0, Fin 1), rangePlotter (Fin 0, Fin 1, Fin 0, Fin 1)]) \<and>
   \<not> covers
       (Add (mkPlot []) [rangePlotter (NaN, Fin 2, Fin 0, Fin 1), rangePlotter (Fin 0, Fin 1, Fin 0, Fin 1)])
       (Fin 0, Fin 1, Fin 0, Fin 1) \<and>
   Min_axis (X_axis
       (Add (mkPlot []) [rangePlotter (NaN, Fin 2, Fin 0, Fin 1), rangePlotter (Fin 0, Fin 1, Fin 0, Fin 1)]))
     = NaN"
  by (simp add: plot_example_defs)


lemma foldl_Min_NaN: "NInf \<notin> set xs \<Longrightarrow> foldl math_Min NaN xs = NaN"
  by (induction xs) (auto simp: math_Min_def)

lemma foldl_Max_NaN: "PInf \<notin> set xs \<Longrightarrow> foldl math_Max NaN xs = NaN"
  by (induction xs) (auto simp: math_Max_def)

lemma math_Min_NaN: "s \<noteq> NInf \<Longrightarrow> math_Min s NaN = NaN"
  by (simp add: math_Min_def)

lemma math_Max_NaN: "s \<noteq> PInf \<Longrightarrow> math_Max s NaN = NaN"
  by (simp add: math_Max_def)

lemma finite_components:
  assumes "\<forall>r \<in> set rs. finite_range r"
  shows "NInf \<notin> set (map xmin_of rs)" "PInf \<notin> set (map xmax_of rs)"
    "NInf \<notin> set (map ymin_of rs)" "PInf \<notin> set (map ymax_of rs)"
  using assms by (auto simp: finite_range_def)

lemma fle_NaN [simp]: "\<not> NaN \<le> (x::float64)" "\<not> (x::float64) \<le> NaN"
  by (cases x; simp add: less_eq_float64_def)+

lemma NaN_not_widened:
  "Min_axis (X_axis q) = NaN \<or> Max_axis (X_axis q) = NaN \<or>
   Min_axis (Y_axis q) = NaN \<or> Max_axis (Y_axis q) = NaN \<Longrightarrow> \<not> widened p q"
  by (auto simp: widened_def)

text \<open>
  Claim C9, as amended. Let a plotter \<open>d\<close> handed to \<^verbatim>\<open>Add\<close> report NaN in some
  component. If the corresponding axis bound, as the loop of \<^verbatim>\<open>Add\<close> has it when it reaches
  \<open>d\<close>, is not the infinity that \<^verbatim>\<open>math.Min\<close> resp. \<^verbatim>\<open>math.Max\<close> lets win over NaN
  (\<open>-\<infinity>\<close> for a \<open>Min\<close>, \<open>+\<infinity>\<close> for a \<open>Max\<close>), then the bound becomes NaN, and it
  is still NaN after the rest of that call and after all later calls of \<^verbatim>\<open>Add\<close>, whatever
  finite ranges they report. A plot with a NaN bound is not a widening of the plot before:
  the monotonic widening is guaranteed only when no reported component is NaN.
\<close>

theorem NaN_absorbs:
  assumes "DataRanger d = Some r"
    and "\<forall>r' \<in> set (reported ps @ reported (concat pss)). finite_range r'"
  shows
    "(xmin_of r = NaN \<and> Min_axis (X_axis (Add_loop p qs)) \<noteq> NInf \<longrightarrow>
        Min_axis (X_axis (last (Add_trace (Add p (qs @ d # ps)) pss))) = NaN) \<and>
     (xmax_of r = NaN \<and> Max_axis (X_axis (Add_loop p qs)) \<noteq> PInf \<longrightarrow>
        Max_axis (X_axis (last (Add_trace (Add p (qs @ d # ps)) pss))) = NaN) \<and>
     (ymin_of r = NaN \<and> Min_axis (Y_axis (Add_loop p qs)) \<noteq> NInf \<longrightarrow>
        Min_axis (Y_axis (last (Add_trace (Add p (qs @ d # ps)) pss))) = NaN) \<and>
     (ymax_of r = NaN \<and> Max_axis (Y_axis (Add_loop p qs)) \<noteq> PInf \<longrightarrow>
        Max_axis (Y_axis (last (Add_trace (Add p (qs @ d # ps)) pss))) = NaN) \<and>
     (Min_axis (X_axis (last (Add_trace (Add p (qs @ d # ps)) pss))) = NaN \<or>
      Max_axis (X_axis (last (Add_trace (Add p (qs @ d # ps)) pss))) = NaN \<or>
      Min_axis (Y_axis (last (Add_trace (Add p (qs @ d # ps)) pss))) = NaN \<or>
      Max_axis (Y_axis (last (Add_trace (Add p (qs @ d # ps)) pss))) = NaN \<longrightarrow>
        \<not> widened p (last (Add_trace (Add p (qs @ d # ps)) pss)))"
proof -
  from assms(2) have "\<forall>r' \<in> set (reported ps). finite_range r'"
    and "\<forall>r' \<in> set (reported (concat pss)). finite_range r'"
    by simp_all
  note f = finite_components [OF this(1)] finite_components [OF this(2)]
  have rep: "reported (qs @ d # ps) = reported qs @ r # reported ps"
    using assms(1) by (simp add: reported_append reported_Cons)
  show ?thesis
    using f NaN_not_widened [of "last (Add_trace (Add p (qs @ d # ps)) pss)" p]
    by (simp add: Add_trace_last_bounds Add_bounds Add_loop_bounds rep
        math_Min_NaN math_Max_NaN foldl_Min_NaN foldl_Max_NaN)
qed

theorem NaN_absorbs_witness:
  "Min_axis (X_axis (Add_loop (mkPlot []) [rangePlotter (Fin 1, Fin 2, Fin 1, Fin 2)])) \<noteq> NInf \<and>
   Max_axis (X_axis (Add_loop (mkPlot []) [rangePlotter (Fin 1, Fin 2, Fin 1, Fin 2)])) \<noteq> PInf \<and>
   Min_axis (Y_axis (Add_loop (mkPlot []) [rangePlotter (Fin 1, Fin 2, Fin 1, Fin 2)])) \<noteq> NInf \<and>
   Max_axis (Y_axis (Add_loop (mkPlot []) [rangePlotter (Fin 1, Fin 2, Fin 1, Fin 2)])) \<noteq> PInf \<and>
   X_axis (last (Add_trace
     (Add (mkPlot []) ([rangePlotter (Fin 1, Fin 2, Fin 1, Fin 2)] @
        rangePlotter (NaN, NaN, NaN, NaN) # [rangePlotter (Fin (- 3), Fin 7, Fin (- 3), Fin 7)]))
     [[silentPlotter], [rangePlotter (Fin (- 9), Fin 9, Fin (- 9), Fin 9)]]))
     = \<lparr>Min_axis = NaN, Max_axis = NaN\<rparr> \<and>
   Y_axis (last (Add_trace
     (Add (mkPlot []) ([rangePlotter (Fin 1, Fin 2, Fin 1, Fin 2)] @
        rangePlotter (NaN, NaN, NaN, NaN) # [rangePlotter (Fin (- 3), Fin 7, Fin (- 3), Fin 7)]))
     [[silentPlotter], [rangePlotter (Fin (- 9), Fin 9, Fin (- 9), Fin 9)]]))
     = \<lparr>Min_axis = NaN, Max_axis = NaN\<rparr>"
  using NaN_absorbs [of "rangePlotter (NaN, NaN, NaN, NaN)" "(NaN, NaN, NaN, NaN)"
      "[rangePlotter (Fin (- 3), Fin 7, Fin (- 3), Fin 7)]"
      "[[silentPlotter], [rangePlotter (Fin (- 9), Fin 9, Fin (- 9), Fin 9)]]"
      "mkPlot []" "[rangePlotter (Fin 1, Fin 2, Fin 1, Fin 2)]"]
  by (simp add: plot_example_defs finite_range_def)

text \<open>
  The claim as it was stated fails once a bound is the infinity: after a plotter that
  reports \<open>-\<infinity>\<close> and \<open>+\<infinity>\<close> for \<open>xmin\<close> and \<open>xmax\<close>, a plotter reporting NaN
  for both leaves the bounds of the X axis as they are.
\<close>

theorem NaN_absorbs_counterexample:
  "Min_axis (X_axis (Add (mkPlot [])
      [rangePlotter (NInf, PInf, Fin 0, Fin 1), rangePlotter (NaN, NaN, Fin 0, Fin 1)])) = NInf \<and>
   Max_axis (X_axis (Add (mkPlot [])
      [rangePlotter (NInf, PInf, Fin 0, Fin 1), rangePlotter (NaN, NaN, Fin 0, Fin 1)])) = PInf"
  by (simp add: plot_example_defs)

subsection \<open>Save\<close>

text \<open>
  Claim C8. The extension of the file path is compared in lower case. When it is none of
  \<^verbatim>\<open>.eps\<close>, \<^verbatim>\<open>.png\<close>, \<^verbatim>\<open>.jpg\<close>, \<^verbatim>\<open>.jpeg\<close>, \<^verbatim>\<open>.svg\<close>, \<^verbatim>\<open>.pdf\<close>, \<^verbatim>\<open>Save\<close> returns the
  unsupported-format error and has done nothing: no canvas, no drawing, no file. When it
  is one of them, the canvas of the corresponding package is created, and the plot is
  drawn and after that the file is written in the corresponding format; the one other
  outcome is that \<^verbatim>\<open>vecimg.New\<close> fails, whose error is returned before anything is drawn
  or written.
\<close>

theorem Save_dispatch:
  "(ToLower (Ext file) \<notin> set supported_extensions \<longrightarrow>
      Save env p width height file = (Some (Unsupported (ToLower (Ext file))), [])) \<and>
   (ToLower (Ext file) \<in> set supported_extensions \<longrightarrow>
      (case backend_for (ToLower (Ext file)) of (backend, format) \<Rightarrow>
         snd (Save env p width height file) = [NewCanvas backend, DrawPlot, SaveFile format file] \<or>
         backend = vecimg \<and> vecimg_New env \<noteq> None \<and>
         Save env p width height file = (vecimg_New env, [NewCanvas vecimg])))"
  by (auto simp add: Save_def Let_def supported_extensions_def backend_for_def split: option.split)

theorem Save_dispatch_witness:
  "Save okEnv (mkPlot []) (Fin 4) (Fin 3) ''plots/fig.1/hist.bmp'' = (Some (Unsupported ''.bmp''), []) \<and>
   snd (Save okEnv (mkPlot []) (Fin 4) (Fin 3) ''hist.PNG'') =
     [NewCanvas vecimg, DrawPlot, SaveFile PNG ''hist.PNG'']"
proof -
  have bmp: "ToLower (Ext ''plots/fig.1/hist.bmp'') = ''.bmp''" by code_simp
  have png: "ToLower (Ext ''hist.PNG'') = ''.png''" by code_simp
  show ?thesis
    using Save_dispatch [of "''plots/fig.1/hist.bmp''" okEnv "mkPlot []" "Fin 4" "Fin 3"]
      Save_dispatch [of "''hist.PNG''" okEnv "mkPlot []" "Fin 4" "Fin 3"]
    by (simp add: bmp png supported_extensions_def backend_for_def okEnv_def)
qed

subsection \<open>Draw\<close>

text \<open>
  Claim C10. \<^verbatim>\<open>Draw\<close> changes the caller's \<^verbatim>\<open>DrawArea\<close> in place when a title is set: for a
  plot with non-empty \<^verbatim>\<open>Title.Text\<close>, the area the caller's pointer refers to has, after
  \<^verbatim>\<open>Draw\<close> returns, a \<open>Size.Y\<close> decreased by the title's height minus the descent of
  the title font, and the same \<open>Min.X\<close>, \<open>Min.Y\<close> and \<open>Size.X\<close> as before; with an
  empty \<^verbatim>\<open>Title.Text\<close> the caller's area is left as it was.
\<close>

theorem Draw_caller_area:
  "(Title_Text p \<noteq> [] \<longrightarrow>
      Y (Size (fst (Draw ax p da))) =
        Y (Size da) - (Height (Title_TextStyle p) (Title_Text p) - Descent (Title_TextStyle p)) \<and>
      X (Min_rect (fst (Draw ax p da))) = X (Min_rect da) \<and>
      Y (Min_rect (fst (Draw ax p da))) = Y (Min_rect da) \<and>
      X (Size (fst (Draw ax p da))) = X (Size da)) \<and>
   (Title_Text p = [] \<longrightarrow> fst (Draw ax p da) = da)"
  by (simp add: Draw_def Let_def)

theorem Draw_caller_area_witness:
  "Size (fst (Draw (mkAxisOps [] []) ((mkPlot [])\<lparr>Title_Text := ''Sales''\<rparr>) (mkArea 0 0 200 100)))
     = \<lparr>X = Fin 200, Y = Fin 91\<rparr> \<and>
   Min_rect (fst (Draw (mkAxisOps [] []) ((mkPlot [])\<lparr>Title_Text := ''Sales''\<rparr>) (mkArea 0 0 200 100)))
     = \<lparr>X = Fin 0, Y = Fin 0\<rparr> \<and>
   fst (Draw (mkAxisOps [] []) (mkPlot []) (mkArea 0 0 200 100)) = mkArea 0 0 200 100"
  using Draw_caller_area [of "(mkPlot [])\<lparr>Title_Text := ''Sales''\<rparr>" "mkAxisOps [] []" "mkArea 0 0 200 100"]
    Draw_caller_area [of "mkPlot []" "mkAxisOps [] []" "mkArea 0 0 200 100"]
  by (simp add: mkPlot_def mkArea_def Point.equality)

end
